theory Spec2Isabelle
  imports Complex_Main "HOL-Library.Word"
begin

section \<open>The Muse bridge (MuseWrapper.cpp) as a state-passing model\<close>

text \<open>
  The bridge keeps its whole state in file-level globals and talks to the device SDK
  through shared pointers. The model keeps the globals in one record, gives every
  shared pointer an identity (a number, \<open>None\<close> for \<open>nullptr\<close>), and lets every SDK call
  either return or throw, as chosen by a parameter of each entry point.
\<close>

subsection \<open>Values crossing the boundary\<close>

text \<open>
  A \<open>double\<close> is only ever copied by the bridge, or set to the constants 0.0 and 1.0;
  no arithmetic is done on it. It is modelled as a real number.
\<close>

type_synonym double = real

type_synonym fn_ptr = nat
type_synonym muse_ref = nat
type_synonym listener_ref = nat
type_synonym manager_ptr = nat

text \<open>
  Modelled from the spec: the enumerations of the SDK header include/muse.h, which is
  not part of the sources. The bridge names the members below; every other member of
  \<open>MuseDataPacketType\<close> is \<open>OTHER_PACKET_TYPE k\<close>. The cast
  \<open>(int)packet->packet_type()\<close> relabels the member by its ordinal in that header, so
  the tag handed to the host is kept as the member itself.
\<close>

datatype Accelerometer = Accelerometer_X | Accelerometer_Y | Accelerometer_Z

datatype Battery = CHARGE_PERCENTAGE_REMAINING | MILLIVOLTS | TEMPERATURE_CELSIUS

datatype Eeg = EEG1 | EEG2 | EEG3 | EEG4 | AUX_LEFT | AUX_RIGHT

datatype MuseDataPacketType =
    ACCELEROMETER
  | BATTERY
  | EEG
  | ARTIFACTS
  | OTHER_PACKET_TYPE nat

text \<open>
  Modelled from the spec: the packet classes of include/muse.h, as far as the bridge
  reads them. A data packet has its type and the three accessors; an artifact packet has
  its three flags.
\<close>

record MuseDataPacket =
  packet_type :: MuseDataPacketType
  get_accelerometer_value :: "Accelerometer \<Rightarrow> double"
  get_battery_value :: "Battery \<Rightarrow> double"
  get_eeg_channel_value :: "Eeg \<Rightarrow> double"

record MuseArtifactPacket =
  headband_on :: bool
  blink :: bool
  jaw_clench :: bool

text \<open>
  A call through one of the three function pointers registered by the host:
  the pointer called and the arguments passed.
\<close>

datatype host_call =
    DataReceived fn_ptr MuseDataPacketType "double list" int

text \<open>
  What a listener method does with the packet it is handed: a call of \<open>packet_type()\<close>,
  a call of one of the three value accessors, or a read of one of the three flags of an
  artifact packet.
\<close>

datatype packet_access =
    Access_packet_type
  | Access_accelerometer_value Accelerometer
  | Access_battery_value Battery
  | Access_eeg_channel_value Eeg
  | Access_headband_on
  | Access_blink
  | Access_jaw_clench

text \<open>
  The locals of a listener method while it marshals: the buffer, and the accesses to the
  packet made so far, in order.
\<close>

record marshal_frame =
  dataBuffer :: "double list"
  accesses :: "packet_access list"

text \<open>
  What one run of a listener method has done when it returns: its accesses to the packet
  and its calls into the host, each in order.
\<close>

record listener_effects =
  packet_accesses :: "packet_access list"
  host_calls :: "host_call list"

subsection \<open>The SDK as the bridge sees it\<close>

datatype exn = StdException | OtherException

datatype sdk_call =
    Call_get_instance
  | Call_set_muse_listener "listener_ref option"
  | Call_start_listening
  | Call_stop_listening
  | Call_get_muses
  | Call_get_name muse_ref
  | Call_disconnect muse_ref
  | Call_register_connection_listener muse_ref "listener_ref option"
  | Call_run_asynchronously muse_ref
  | Call_register_data_listener muse_ref "listener_ref option" int
  | Call_unregister_data_listener muse_ref "listener_ref option" int

text \<open>Which SDK calls throw, and what: a parameter of every entry point.\<close>

type_synonym faults = "sdk_call \<Rightarrow> exn option"

definition no_faults :: faults where
  "no_faults = (\<lambda>c. None)"

text \<open>
  Modelled from the spec: the \<open>Muse\<close> class of include/muse.h, which is not part of the
  sources. A device object carries its name, the listeners the bridge has registered on
  it and not unregistered (for data listeners together with the type tag they were
  registered for), and whether \<open>run_asynchronously\<close> has been called on it since the last
  \<open>disconnect\<close>.
\<close>

record Muse =
  muse_name :: string
  connection_listeners :: "listener_ref list"
  data_listeners :: "(listener_ref \<times> int) list"
  running :: bool

text \<open>
  The globals of MuseWrapper.cpp (the \<open>g_\<close> fields, all \<open>nullptr\<close> at start), the
  allocation counter behind \<open>std::make_shared\<close>, and the SDK side: the singleton that
  \<open>MuseManagerWindows::get_instance\<close> hands out, the manager's listener, whether it is
  listening, its current device list, the device objects, and the SDK calls made so far
  in the order they were made.
\<close>

record bridge =
  g_manager :: "manager_ptr option"
  g_museListChangedCallback :: "fn_ptr option"
  g_connectionStateChangedCallback :: "fn_ptr option"
  g_dataReceivedCallback :: "fn_ptr option"
  g_currentMuse :: "muse_ref option"
  g_listener :: "listener_ref option"
  g_connectionListener :: "listener_ref option"
  g_dataListener :: "listener_ref option"
  next_listener :: listener_ref
  sdk_instance :: "manager_ptr option"
  muse_listener :: "listener_ref option"
  listening :: bool
  muses :: "muse_ref list"
  muse_objects :: "muse_ref \<Rightarrow> Muse"
  sdk_log :: "sdk_call list"

subsection \<open>DataListenerImpl\<close>

text \<open>
  One assignment \<open>dataBuffer[i] = v\<close> whose right-hand side \<open>v\<close> was obtained by the
  access \<open>a\<close> to the packet.
\<close>

definition assign :: "nat \<Rightarrow> packet_access \<Rightarrow> double \<Rightarrow> marshal_frame \<Rightarrow> marshal_frame" where
  "assign i a v frame =
     frame\<lparr>dataBuffer := (dataBuffer frame)[i := v], accesses := accesses frame @ [a]\<rparr>"

text \<open>
  The part of \<open>receive_muse_data_packet\<close> between the null check and the callback:
  the buffer is zero-initialised, the switch reads the packet type, and the case taken
  fills the buffer from the accessors, one assignment after the other.
\<close>

definition marshal_data_packet :: "MuseDataPacket \<Rightarrow> marshal_frame" where
  "marshal_data_packet packet =
     (let frame = \<lparr>dataBuffer = [0, 0, 0, 0, 0, 0], accesses = [Access_packet_type]\<rparr> in
      case packet_type packet of
        ACCELEROMETER \<Rightarrow>
          (let f1 = assign 0 (Access_accelerometer_value Accelerometer_X)
                      (get_accelerometer_value packet Accelerometer_X) frame;
               f2 = assign 1 (Access_accelerometer_value Accelerometer_Y)
                      (get_accelerometer_value packet Accelerometer_Y) f1;
               f3 = assign 2 (Access_accelerometer_value Accelerometer_Z)
                      (get_accelerometer_value packet Accelerometer_Z) f2
           in f3)
      | BATTERY \<Rightarrow>
          (let f1 = assign 0 (Access_battery_value CHARGE_PERCENTAGE_REMAINING)
                      (get_battery_value packet CHARGE_PERCENTAGE_REMAINING) frame;
               f2 = assign 1 (Access_battery_value MILLIVOLTS)
                      (get_battery_value packet MILLIVOLTS) f1;
               f3 = assign 2 (Access_battery_value TEMPERATURE_CELSIUS)
                      (get_battery_value packet TEMPERATURE_CELSIUS) f2
           in f3)
      | EEG \<Rightarrow>
          (let f1 = assign 0 (Access_eeg_channel_value EEG1)
                      (get_eeg_channel_value packet EEG1) frame;
               f2 = assign 1 (Access_eeg_channel_value EEG2)
                      (get_eeg_channel_value packet EEG2) f1;
               f3 = assign 2 (Access_eeg_channel_value EEG3)
                      (get_eeg_channel_value packet EEG3) f2;
               f4 = assign 3 (Access_eeg_channel_value EEG4)
                      (get_eeg_channel_value packet EEG4) f3;
               f5 = assign 4 (Access_eeg_channel_value AUX_LEFT)
                      (get_eeg_channel_value packet AUX_LEFT) f4;
               f6 = assign 5 (Access_eeg_channel_value AUX_RIGHT)
                      (get_eeg_channel_value packet AUX_RIGHT) f5
           in f6)
      | _ \<Rightarrow> frame)"

text \<open>The same part of \<open>receive_muse_artifact_packet\<close>: three flags, each as 1.0 or 0.0.\<close>

definition marshal_artifact_packet :: "MuseArtifactPacket \<Rightarrow> marshal_frame" where
  "marshal_artifact_packet packet =
     (let frame = \<lparr>dataBuffer = [0, 0, 0, 0, 0, 0], accesses = []\<rparr>;
          f1 = assign 0 Access_headband_on (if headband_on packet then 1 else 0) frame;
          f2 = assign 1 Access_blink (if blink packet then 1 else 0) f1;
          f3 = assign 2 Access_jaw_clench (if jaw_clench packet then 1 else 0) f2
      in f3)"

text \<open>
  The two methods of the data listener. When \<open>g_dataReceivedCallback\<close> is null the
  method returns at its first statement: it has not touched the packet and has called
  nothing. Otherwise it marshals and calls the callback once with the tag, the buffer and
  the length 6; for a data packet the tag is a second call of \<open>packet_type()\<close>.
\<close>

definition receive_muse_data_packet :: "bridge \<Rightarrow> MuseDataPacket \<Rightarrow> listener_effects" where
  "receive_muse_data_packet s packet =
     (case g_dataReceivedCallback s of
        None \<Rightarrow> \<lparr>packet_accesses = [], host_calls = []\<rparr>
      | Some callback \<Rightarrow>
          (let frame = marshal_data_packet packet in
           \<lparr>packet_accesses = accesses frame @ [Access_packet_type],
            host_calls = [DataReceived callback (packet_type packet) (dataBuffer frame) 6]\<rparr>))"

definition receive_muse_artifact_packet ::
  "bridge \<Rightarrow> MuseArtifactPacket \<Rightarrow> listener_effects" where
  "receive_muse_artifact_packet s packet =
     (case g_dataReceivedCallback s of
        None \<Rightarrow> \<lparr>packet_accesses = [], host_calls = []\<rparr>
      | Some callback \<Rightarrow>
          (let frame = marshal_artifact_packet packet in
           \<lparr>packet_accesses = accesses frame,
            host_calls = [DataReceived callback ARTIFACTS (dataBuffer frame) 6]\<rparr>))"

subsection \<open>SDK calls\<close>

text \<open>
  Modelled from the spec: the methods of \<open>MuseManagerWindows\<close> and \<open>Muse\<close> that the
  bridge calls; include/muse.h is not part of the sources. An SDK call is logged when it
  is made. If it throws, it has had no effect and the exception travels with the state
  reached so far; otherwise its effect is applied and its result returned. The effects
  are the least the names promise: registering adds a listener to the device,
  unregistering removes it, \<open>run_asynchronously\<close> starts the device and \<open>disconnect\<close>
  stops it, and nothing but an unregister call removes a listener.
\<close>

definition invoke ::
  "faults \<Rightarrow> sdk_call \<Rightarrow> (bridge \<Rightarrow> 'a \<times> bridge) \<Rightarrow> bridge \<Rightarrow> (exn + 'a) \<times> bridge" where
  "invoke flt c effect s =
     (let s' = s\<lparr>sdk_log := sdk_log s @ [c]\<rparr> in
      case flt c of
        Some e \<Rightarrow> (Inl e, s')
      | None \<Rightarrow> (case effect s' of (a, t) \<Rightarrow> (Inr a, t)))"

definition update_muse :: "muse_ref \<Rightarrow> (Muse \<Rightarrow> Muse) \<Rightarrow> bridge \<Rightarrow> bridge" where
  "update_muse m f s = s\<lparr>muse_objects := (muse_objects s)(m := f (muse_objects s m))\<rparr>"

definition get_instance :: "faults \<Rightarrow> bridge \<Rightarrow> (exn + manager_ptr option) \<times> bridge" where
  "get_instance flt = invoke flt Call_get_instance (\<lambda>s. (sdk_instance s, s))"

definition set_muse_listener ::
  "faults \<Rightarrow> listener_ref option \<Rightarrow> bridge \<Rightarrow> (exn + unit) \<times> bridge" where
  "set_muse_listener flt l =
     invoke flt (Call_set_muse_listener l) (\<lambda>s. ((), s\<lparr>muse_listener := l\<rparr>))"

definition start_listening :: "faults \<Rightarrow> bridge \<Rightarrow> (exn + unit) \<times> bridge" where
  "start_listening flt = invoke flt Call_start_listening (\<lambda>s. ((), s\<lparr>listening := True\<rparr>))"

definition stop_listening :: "faults \<Rightarrow> bridge \<Rightarrow> (exn + unit) \<times> bridge" where
  "stop_listening flt = invoke flt Call_stop_listening (\<lambda>s. ((), s\<lparr>listening := False\<rparr>))"

definition get_muses :: "faults \<Rightarrow> bridge \<Rightarrow> (exn + muse_ref list) \<times> bridge" where
  "get_muses flt = invoke flt Call_get_muses (\<lambda>s. (muses s, s))"

definition get_name :: "faults \<Rightarrow> muse_ref \<Rightarrow> bridge \<Rightarrow> (exn + string) \<times> bridge" where
  "get_name flt m = invoke flt (Call_get_name m) (\<lambda>s. (muse_name (muse_objects s m), s))"

definition disconnect :: "faults \<Rightarrow> muse_ref \<Rightarrow> bridge \<Rightarrow> (exn + unit) \<times> bridge" where
  "disconnect flt m =
     invoke flt (Call_disconnect m) (\<lambda>s. ((), update_muse m (\<lambda>d. d\<lparr>running := False\<rparr>) s))"

definition register_connection_listener ::
  "faults \<Rightarrow> muse_ref \<Rightarrow> listener_ref option \<Rightarrow> bridge \<Rightarrow> (exn + unit) \<times> bridge" where
  "register_connection_listener flt m l =
     invoke flt (Call_register_connection_listener m l)
       (\<lambda>s. ((), case l of
                    None \<Rightarrow> s
                  | Some r \<Rightarrow>
                      update_muse m
                        (\<lambda>d. d\<lparr>connection_listeners := connection_listeners d @ [r]\<rparr>) s))"

definition run_asynchronously :: "faults \<Rightarrow> muse_ref \<Rightarrow> bridge \<Rightarrow> (exn + unit) \<times> bridge" where
  "run_asynchronously flt m =
     invoke flt (Call_run_asynchronously m)
       (\<lambda>s. ((), update_muse m (\<lambda>d. d\<lparr>running := True\<rparr>) s))"

definition register_data_listener ::
  "faults \<Rightarrow> muse_ref \<Rightarrow> listener_ref option \<Rightarrow> int \<Rightarrow> bridge \<Rightarrow> (exn + unit) \<times> bridge" where
  "register_data_listener flt m l packetType =
     invoke flt (Call_register_data_listener m l packetType)
       (\<lambda>s. ((), case l of
                    None \<Rightarrow> s
                  | Some r \<Rightarrow>
                      update_muse m
                        (\<lambda>d. d\<lparr>data_listeners := data_listeners d @ [(r, packetType)]\<rparr>) s))"

definition unregister_data_listener ::
  "faults \<Rightarrow> muse_ref \<Rightarrow> listener_ref option \<Rightarrow> int \<Rightarrow> bridge \<Rightarrow> (exn + unit) \<times> bridge" where
  "unregister_data_listener flt m l packetType =
     invoke flt (Call_unregister_data_listener m l packetType)
       (\<lambda>s. ((), case l of
                    None \<Rightarrow> s
                  | Some r \<Rightarrow>
                      update_muse m
                        (\<lambda>d. d\<lparr>data_listeners :=
                                 removeAll (r, packetType) (data_listeners d)\<rparr>) s))"

text \<open>\<open>std::make_shared\<close> of a listener class: a pointer to an object that did not exist before.\<close>

definition make_shared :: "bridge \<Rightarrow> listener_ref \<times> bridge" where
  "make_shared s = (next_listener s, s\<lparr>next_listener := Suc (next_listener s)\<rparr>)"

subsection \<open>The exported functions\<close>

text \<open>
  Every exported function is one \<open>try\<close> block with catch-all handlers: an exception ends
  the body where it is thrown, the globals keep what was assigned before, and the
  function returns its sentinel. The log messages have no effect on the state and are
  left out.
\<close>

definition GetMuseManager :: "faults \<Rightarrow> bridge \<Rightarrow> manager_ptr option \<times> bridge" where
  "GetMuseManager flt s =
     (if g_manager s \<noteq> None then (g_manager s, s)
      else
        case get_instance flt s of
          (Inl StdException, s1) \<Rightarrow> (None, s1\<lparr>g_manager := None\<rparr>)
        | (Inl OtherException, s1) \<Rightarrow> (None, s1)
        | (Inr inst, s1) \<Rightarrow>
            (let s2 = s1\<lparr>g_manager := inst\<rparr> in
             if g_manager s2 = None then (None, s2)
             else
               (let s3 = (case g_listener s2 of
                            None \<Rightarrow>
                              (case make_shared s2 of (l, s') \<Rightarrow> s'\<lparr>g_listener := Some l\<rparr>)
                          | Some l \<Rightarrow> s2) in
                (case set_muse_listener flt (g_listener s3) s3 of
                   (Inl StdException, s4) \<Rightarrow> (None, s4\<lparr>g_manager := None\<rparr>)
                 | (Inl OtherException, s4) \<Rightarrow> (None, s4)
                 | (Inr u, s4) \<Rightarrow> (g_manager s4, s4)))))"

definition StartListening :: "faults \<Rightarrow> bridge \<Rightarrow> bool \<times> bridge" where
  "StartListening flt s =
     (if g_manager s = None then (False, s)
      else
        case start_listening flt s of
          (Inl e, s1) \<Rightarrow> (False, s1)
        | (Inr u, s1) \<Rightarrow> (True, s1))"

definition StopListening :: "faults \<Rightarrow> bridge \<Rightarrow> bridge" where
  "StopListening flt s =
     (if g_manager s \<noteq> None then
        (case stop_listening flt s of
           (Inl e, s1) \<Rightarrow> s1
         | (Inr u, s1) \<Rightarrow> s1)
      else s)"

text \<open>
  \<open>GetMuseCount\<close> returns \<open>(int)muses.size()\<close>: the size is cut to 32 bits.
\<close>

definition GetMuseCount :: "faults \<Rightarrow> bridge \<Rightarrow> 32 word \<times> bridge" where
  "GetMuseCount flt s =
     (if g_manager s = None then (0, s)
      else
        case get_muses flt s of
          (Inl e, s1) \<Rightarrow> (0, s1)
        | (Inr ms, s1) \<Rightarrow> (word_of_nat (length ms), s1))"

text \<open>
  In \<open>index < 0 || index >= muses.size()\<close> the second comparison is unsigned; it is
  reached only with a non-negative index, which the conversion to \<open>size_t\<close> keeps.
\<close>

definition GetMuseName :: "faults \<Rightarrow> 32 word \<Rightarrow> bridge \<Rightarrow> string \<times> bridge" where
  "GetMuseName flt index s =
     (if g_manager s = None then ('''', s)
      else
        case get_muses flt s of
          (Inl e, s1) \<Rightarrow> ('''', s1)
        | (Inr ms, s1) \<Rightarrow>
            if sint index < 0 \<or> nat (sint index) \<ge> length ms then ('''', s1)
            else
              (case get_name flt (ms ! nat (sint index)) s1 of
                 (Inl e, s2) \<Rightarrow> ('''', s2)
               | (Inr name, s2) \<Rightarrow> (name, s2)))"

text \<open>
  The body of the loop of \<open>ConnectToMuse\<close> once a name has matched, in the four
  blocks the source marks with comments: disconnect the previous device if there is one,
  create the two listeners if they do not exist, register the connection listener on the
  matched device, make it the current device and start it.
\<close>

definition disconnect_previous :: "faults \<Rightarrow> bridge \<Rightarrow> (exn + unit) \<times> bridge" where
  "disconnect_previous flt s =
     (case g_currentMuse s of
        None \<Rightarrow> (Inr (), s)
      | Some current \<Rightarrow> disconnect flt current s)"

definition create_listeners :: "bridge \<Rightarrow> bridge" where
  "create_listeners s =
     (let s1 = (case g_connectionListener s of
                  None \<Rightarrow> (case make_shared s of
                             (l, s') \<Rightarrow> s'\<lparr>g_connectionListener := Some l\<rparr>)
                | Some l \<Rightarrow> s);
          s2 = (case g_dataListener s1 of
                  None \<Rightarrow> (case make_shared s1 of
                             (l, s') \<Rightarrow> s'\<lparr>g_dataListener := Some l\<rparr>)
                | Some l \<Rightarrow> s1)
      in s2)"

definition register_and_run :: "faults \<Rightarrow> muse_ref \<Rightarrow> bridge \<Rightarrow> (exn + bool) \<times> bridge" where
  "register_and_run flt muse s =
     (case register_connection_listener flt muse (g_connectionListener s) s of
        (Inl e, s1) \<Rightarrow> (Inl e, s1)
      | (Inr u, s1) \<Rightarrow>
          (let s2 = s1\<lparr>g_currentMuse := Some muse\<rparr> in
           (case run_asynchronously flt muse s2 of
              (Inl e, s3) \<Rightarrow> (Inl e, s3)
            | (Inr u, s3) \<Rightarrow> (Inr True, s3))))"

definition connect_matched :: "faults \<Rightarrow> muse_ref \<Rightarrow> bridge \<Rightarrow> (exn + bool) \<times> bridge" where
  "connect_matched flt muse s =
     (case disconnect_previous flt s of
        (Inl e, s1) \<Rightarrow> (Inl e, s1)
      | (Inr u, s1) \<Rightarrow> register_and_run flt muse (create_listeners s1))"

text \<open>
  The loop \<open>for (auto muse : muses)\<close>: it returns from inside at the first device whose
  name equals the argument; running off the end is the \<open>return false\<close> after the loop.
\<close>

fun connect_scan ::
  "faults \<Rightarrow> string \<Rightarrow> muse_ref list \<Rightarrow> bridge \<Rightarrow> (exn + bool) \<times> bridge" where
  "connect_scan flt name [] s = (Inr False, s)"
| "connect_scan flt name (muse # rest) s =
     (case get_name flt muse s of
        (Inl e, s1) \<Rightarrow> (Inl e, s1)
      | (Inr n, s1) \<Rightarrow>
          if n = name then connect_matched flt muse s1
          else connect_scan flt name rest s1)"

definition ConnectToMuse :: "faults \<Rightarrow> string \<Rightarrow> bridge \<Rightarrow> bool \<times> bridge" where
  "ConnectToMuse flt name s =
     (if g_manager s = None then (False, s)
      else
        case get_muses flt s of
          (Inl e, s1) \<Rightarrow> (False, s1)
        | (Inr ms, s1) \<Rightarrow>
            (case connect_scan flt name ms s1 of
               (Inl e, s2) \<Rightarrow> (False, s2)
             | (Inr r, s2) \<Rightarrow> (r, s2)))"

definition DisconnectMuse :: "faults \<Rightarrow> bridge \<Rightarrow> bridge" where
  "DisconnectMuse flt s =
     (case g_currentMuse s of
        None \<Rightarrow> s
      | Some current \<Rightarrow>
          (case disconnect flt current s of
             (Inl e, s1) \<Rightarrow> s1
           | (Inr u, s1) \<Rightarrow> s1\<lparr>g_currentMuse := None\<rparr>))"

definition RegisterDataListener :: "faults \<Rightarrow> int \<Rightarrow> bridge \<Rightarrow> bool \<times> bridge" where
  "RegisterDataListener flt packetType s =
     (case g_currentMuse s of
        None \<Rightarrow> (False, s)
      | Some current \<Rightarrow>
          if g_dataListener s = None then (False, s)
          else
            (case register_data_listener flt current (g_dataListener s) packetType s of
               (Inl e, s1) \<Rightarrow> (False, s1)
             | (Inr u, s1) \<Rightarrow> (True, s1)))"

definition UnregisterDataListener :: "faults \<Rightarrow> int \<Rightarrow> bridge \<Rightarrow> bool \<times> bridge" where
  "UnregisterDataListener flt packetType s =
     (case g_currentMuse s of
        None \<Rightarrow> (False, s)
      | Some current \<Rightarrow>
          if g_dataListener s = None then (False, s)
          else
            (case unregister_data_listener flt current (g_dataListener s) packetType s of
               (Inl e, s1) \<Rightarrow> (False, s1)
             | (Inr u, s1) \<Rightarrow> (True, s1)))"

definition SetMuseListChangedCallback :: "fn_ptr option \<Rightarrow> bridge \<Rightarrow> bridge" where
  "SetMuseListChangedCallback callback s = s\<lparr>g_museListChangedCallback := callback\<rparr>"

definition SetConnectionStateChangedCallback :: "fn_ptr option \<Rightarrow> bridge \<Rightarrow> bridge" where
  "SetConnectionStateChangedCallback callback s =
     s\<lparr>g_connectionStateChangedCallback := callback\<rparr>"

definition SetDataReceivedCallback :: "fn_ptr option \<Rightarrow> bridge \<Rightarrow> bridge" where
  "SetDataReceivedCallback callback s = s\<lparr>g_dataReceivedCallback := callback\<rparr>"

definition StopMuseManager :: "faults \<Rightarrow> bridge \<Rightarrow> bridge" where
  "StopMuseManager flt s =
     (case (case g_currentMuse s of
              None \<Rightarrow> (Inr (), s)
            | Some current \<Rightarrow>
                (case disconnect flt current s of
                   (Inl e, s1) \<Rightarrow> (Inl e, s1)
                 | (Inr u, s1) \<Rightarrow> (Inr (), s1\<lparr>g_currentMuse := None\<rparr>))) of
        (Inl e, s1) \<Rightarrow> s1
      | (Inr u, s1) \<Rightarrow>
          (case (if g_manager s1 \<noteq> None then stop_listening flt s1 else (Inr (), s1)) of
             (Inl e, s2) \<Rightarrow> s2
           | (Inr u, s2) \<Rightarrow>
               s2\<lparr>g_museListChangedCallback := None,
                  g_connectionStateChangedCallback := None,
                  g_dataReceivedCallback := None,
                  g_listener := None,
                  g_connectionListener := None,
                  g_dataListener := None,
                  g_manager := None\<rparr>))"

subsection \<open>The exported functions as one step function\<close>

datatype boundary_op =
    Op_GetMuseManager
  | Op_StartListening
  | Op_StopListening
  | Op_GetMuseCount
  | Op_GetMuseName "32 word"
  | Op_ConnectToMuse string
  | Op_DisconnectMuse
  | Op_RegisterDataListener int
  | Op_UnregisterDataListener int
  | Op_SetMuseListChangedCallback "fn_ptr option"
  | Op_SetConnectionStateChangedCallback "fn_ptr option"
  | Op_SetDataReceivedCallback "fn_ptr option"
  | Op_StopMuseManager

fun run_op :: "faults \<Rightarrow> boundary_op \<Rightarrow> bridge \<Rightarrow> bridge" where
  "run_op flt Op_GetMuseManager s = snd (GetMuseManager flt s)"
| "run_op flt Op_StartListening s = snd (StartListening flt s)"
| "run_op flt Op_StopListening s = StopListening flt s"
| "run_op flt Op_GetMuseCount s = snd (GetMuseCount flt s)"
| "run_op flt (Op_GetMuseName index) s = snd (GetMuseName flt index s)"
| "run_op flt (Op_ConnectToMuse name) s = snd (ConnectToMuse flt name s)"
| "run_op flt Op_DisconnectMuse s = DisconnectMuse flt s"
| "run_op flt (Op_RegisterDataListener packetType) s =
     snd (RegisterDataListener flt packetType s)"
| "run_op flt (Op_UnregisterDataListener packetType) s =
     snd (UnregisterDataListener flt packetType s)"
| "run_op flt (Op_SetMuseListChangedCallback callback) s =
     SetMuseListChangedCallback callback s"
| "run_op flt (Op_SetConnectionStateChangedCallback callback) s =
     SetConnectionStateChangedCallback callback s"
| "run_op flt (Op_SetDataReceivedCallback callback) s = SetDataReceivedCallback callback s"
| "run_op flt Op_StopMuseManager s = StopMuseManager flt s"

text \<open>
  The state of the process before any exported function has run: every global is
  \<open>nullptr\<close>; the SDK side is whatever the machine offers.
\<close>

definition startup :: "manager_ptr option \<Rightarrow> muse_ref list \<Rightarrow> (muse_ref \<Rightarrow> Muse) \<Rightarrow> bridge" where
  "startup inst ms objs =
     \<lparr>g_manager = None,
      g_museListChangedCallback = None,
      g_connectionStateChangedCallback = None,
      g_dataReceivedCallback = None,
      g_currentMuse = None,
      g_listener = None,
      g_connectionListener = None,
      g_dataListener = None,
      next_listener = 0,
      sdk_instance = inst,
      muse_listener = None,
      listening = False,
      muses = ms,
      muse_objects = objs,
      sdk_log = []\<rparr>"

subsection \<open>Invariants\<close>

text \<open>With a current device, both listener objects of the connect path exist.\<close>

definition listeners_present :: "bridge \<Rightarrow> bool" where
  "listeners_present s =
     (g_currentMuse s \<noteq> None \<longrightarrow>
        g_connectionListener s \<noteq> None \<and> g_dataListener s \<noteq> None)"


text \<open>The lookup that the loop of \<open>ConnectToMuse\<close> performs when no SDK call throws.\<close>

definition first_match :: "bridge \<Rightarrow> string \<Rightarrow> muse_ref option" where
  "first_match s name = find (\<lambda>m. muse_name (muse_objects s m) = name) (muses s)"

text \<open>
  The SDK calls of a scan in which no lookup throws: the device list is fetched, then the
  names are read in list order up to and including the first device that matches.
\<close>

definition scan_calls :: "bridge \<Rightarrow> string \<Rightarrow> sdk_call list" where
  "scan_calls s name =
     Call_get_muses #
     map Call_get_name (takeWhile (\<lambda>d. muse_name (muse_objects s d) \<noteq> name) (muses s)) @
     (case first_match s name of None \<Rightarrow> [] | Some m \<Rightarrow> [Call_get_name m])"

subsection \<open>Concrete inputs\<close>

definition sample_packet :: "MuseDataPacketType \<Rightarrow> MuseDataPacket" where
  "sample_packet ty =
     \<lparr>packet_type = ty,
      get_accelerometer_value =
        (\<lambda>a. case a of Accelerometer_X \<Rightarrow> 7 | Accelerometer_Y \<Rightarrow> 8 | Accelerometer_Z \<Rightarrow> 9),
      get_battery_value =
        (\<lambda>b. case b of CHARGE_PERCENTAGE_REMAINING \<Rightarrow> 80 | MILLIVOLTS \<Rightarrow> 3700
                 | TEMPERATURE_CELSIUS \<Rightarrow> 25),
      get_eeg_channel_value =
        (\<lambda>c. case c of EEG1 \<Rightarrow> 1 | EEG2 \<Rightarrow> 2 | EEG3 \<Rightarrow> 3 | EEG4 \<Rightarrow> 4
                 | AUX_LEFT \<Rightarrow> 5 | AUX_RIGHT \<Rightarrow> 6)\<rparr>"

definition sample_artifact :: MuseArtifactPacket where
  "sample_artifact = \<lparr>headband_on = True, blink = False, jaw_clench = True\<rparr>"

text \<open>Three devices in range: device 0 is Muse-A, devices 1 and 2 are both Muse-B.\<close>

definition sample_objects :: "muse_ref \<Rightarrow> Muse" where
  "sample_objects m =
     \<lparr>muse_name = (if m = 0 then ''Muse-A'' else ''Muse-B''),
      connection_listeners = [],
      data_listeners = [],
      running = False\<rparr>"

definition sample_ready :: bridge where
  "sample_ready = snd (GetMuseManager no_faults (startup (Some 1) [0, 1, 2] sample_objects))"

definition sample_connected :: bridge where
  "sample_connected = snd (ConnectToMuse no_faults ''Muse-A'' sample_ready)"

definition sample_subscribed :: bridge where
  "sample_subscribed = snd (RegisterDataListener no_faults 2 sample_connected)"

text \<open>A fault environment in which disconnecting device 0 throws and nothing else does.\<close>

definition disconnect_0_throws :: faults where
  "disconnect_0_throws c = (if c = Call_disconnect 0 then Some StdException else None)"

text \<open>
  A fault environment in which registering connection listener 1 on device 1 throws and
  nothing else does.
\<close>

definition register_on_1_throws :: faults where
  "register_on_1_throws c =
     (if c = Call_register_connection_listener 1 (Some 1) then Some StdException else None)"

section \<open>Data marshaling\<close>

text \<open>
  C1. For every data event the marshaler produces a 6-slot buffer matching the layout of
  its tag: ACCELEROMETER writes x, y, z to positions 0-2; BATTERY writes charge percent,
  millivolts and temperature to positions 0-2; EEG writes its six channels to positions
  0-5; an artifact event writes its three flags as 1.0 or 0.0 to positions 0-2; every
  unused slot is 0.0. A data event of any other kind gives the all-zero buffer. When a
  data callback is registered, it is called with the event's own tag (ARTIFACTS for an
  artifact event), that buffer and the length 6.
\<close>

theorem marshal_layout:
  "length (dataBuffer (marshal_data_packet p)) = 6
   \<and> (packet_type p = ACCELEROMETER \<longrightarrow>
        dataBuffer (marshal_data_packet p) =
          [get_accelerometer_value p Accelerometer_X,
           get_accelerometer_value p Accelerometer_Y,
           get_accelerometer_value p Accelerometer_Z, 0, 0, 0])
   \<and> (packet_type p = BATTERY \<longrightarrow>
        dataBuffer (marshal_data_packet p) =
          [get_battery_value p CHARGE_PERCENTAGE_REMAINING,
           get_battery_value p MILLIVOLTS,
           get_battery_value p TEMPERATURE_CELSIUS, 0, 0, 0])
   \<and> (packet_type p = EEG \<longrightarrow>
        dataBuffer (marshal_data_packet p) =
          [get_eeg_channel_value p EEG1, get_eeg_channel_value p EEG2,
           get_eeg_channel_value p EEG3, get_eeg_channel_value p EEG4,
           get_eeg_channel_value p AUX_LEFT, get_eeg_channel_value p AUX_RIGHT])
   \<and> (packet_type p \<notin> {ACCELEROMETER, BATTERY, EEG} \<longrightarrow>
        dataBuffer (marshal_data_packet p) = [0, 0, 0, 0, 0, 0])
   \<and> dataBuffer (marshal_artifact_packet a) =
        [if headband_on a then 1 else 0, if blink a then 1 else 0,
         if jaw_clench a then 1 else 0, 0, 0, 0]
   \<and> (g_dataReceivedCallback s = Some f \<longrightarrow>
        host_calls (receive_muse_data_packet s p) =
          [DataReceived f (packet_type p) (dataBuffer (marshal_data_packet p)) 6]
        \<and> host_calls (receive_muse_artifact_packet s a) =
          [DataReceived f ARTIFACTS (dataBuffer (marshal_artifact_packet a)) 6])"
  by (cases "packet_type p")
     (simp_all add: marshal_data_packet_def marshal_artifact_packet_def assign_def Let_def
        receive_muse_data_packet_def receive_muse_artifact_packet_def)

theorem marshal_layout_witness:
  "packet_type (sample_packet ACCELEROMETER) = ACCELEROMETER
   \<and> dataBuffer (marshal_data_packet (sample_packet ACCELEROMETER)) = [7, 8, 9, 0, 0, 0]
   \<and> packet_type (sample_packet BATTERY) = BATTERY
   \<and> dataBuffer (marshal_data_packet (sample_packet BATTERY)) = [80, 3700, 25, 0, 0, 0]
   \<and> packet_type (sample_packet EEG) = EEG
   \<and> dataBuffer (marshal_data_packet (sample_packet EEG)) = [1, 2, 3, 4, 5, 6]
   \<and> packet_type (sample_packet (OTHER_PACKET_TYPE 1)) \<notin> {ACCELEROMETER, BATTERY, EEG}
   \<and> dataBuffer (marshal_data_packet (sample_packet (OTHER_PACKET_TYPE 1))) =
        [0, 0, 0, 0, 0, 0]
   \<and> dataBuffer (marshal_artifact_packet sample_artifact) = [1, 0, 1, 0, 0, 0]
   \<and> g_dataReceivedCallback (SetDataReceivedCallback (Some 5) sample_ready) = Some 5
   \<and> host_calls (receive_muse_data_packet (SetDataReceivedCallback (Some 5) sample_ready)
        (sample_packet (OTHER_PACKET_TYPE 1))) =
        [DataReceived 5 (OTHER_PACKET_TYPE 1) [0, 0, 0, 0, 0, 0] 6]
   \<and> host_calls (receive_muse_artifact_packet (SetDataReceivedCallback (Some 5) sample_ready)
        sample_artifact) =
        [DataReceived 5 ARTIFACTS [1, 0, 1, 0, 0, 0] 6]"
proof -
  let ?s = "SetDataReceivedCallback (Some 5) sample_ready"
  have cb: "g_dataReceivedCallback ?s = Some 5"
    by (simp add: SetDataReceivedCallback_def)
  note acc = marshal_layout [of "sample_packet ACCELEROMETER" sample_artifact ?s 5]
  note bat = marshal_layout [of "sample_packet BATTERY" sample_artifact ?s 5]
  note eeg = marshal_layout [of "sample_packet EEG" sample_artifact ?s 5]
  note oth = marshal_layout [of "sample_packet (OTHER_PACKET_TYPE 1)" sample_artifact ?s 5]
  have "dataBuffer (marshal_data_packet (sample_packet ACCELEROMETER)) = [7, 8, 9, 0, 0, 0]"
    using acc by (simp add: sample_packet_def)
  moreover have "dataBuffer (marshal_data_packet (sample_packet BATTERY)) =
      [80, 3700, 25, 0, 0, 0]"
    using bat by (simp add: sample_packet_def)
  moreover have "dataBuffer (marshal_data_packet (sample_packet EEG)) = [1, 2, 3, 4, 5, 6]"
    using eeg by (simp add: sample_packet_def)
  moreover have z: "dataBuffer (marshal_data_packet (sample_packet (OTHER_PACKET_TYPE 1))) =
      [0, 0, 0, 0, 0, 0]"
    using oth by (simp add: sample_packet_def)
  moreover have a: "dataBuffer (marshal_artifact_packet sample_artifact) = [1, 0, 1, 0, 0, 0]"
    using oth by (simp add: sample_artifact_def)
  moreover have "host_calls (receive_muse_data_packet ?s (sample_packet (OTHER_PACKET_TYPE 1))) =
      [DataReceived 5 (OTHER_PACKET_TYPE 1) [0, 0, 0, 0, 0, 0] 6]"
    using oth cb z by (simp add: sample_packet_def)
  moreover have "host_calls (receive_muse_artifact_packet ?s sample_artifact) =
      [DataReceived 5 ARTIFACTS [1, 0, 1, 0, 0, 0] 6]"
    using oth cb a by simp
  ultimately show ?thesis
    using cb by (simp add: sample_packet_def)
qed

text \<open>
  C6. While the data callback slot is unset, a data or artifact event makes the data
  listener return at once: it makes no access to the packet, so it marshals nothing, and
  it makes no call into the host, whatever the event holds. Marshaling happens only with
  a callback registered: any access to the packet and any call into the host imply a
  registered callback, and with one registered the method does read the packet: the
  type, then the values of the case taken in slot order, then the type again for the
  tag; for an artifact event the three flags.
\<close>

theorem data_adapter_skips_when_unset:
  "(g_dataReceivedCallback s = None \<longrightarrow>
      receive_muse_data_packet s p = \<lparr>packet_accesses = [], host_calls = []\<rparr>
      \<and> receive_muse_artifact_packet s a = \<lparr>packet_accesses = [], host_calls = []\<rparr>)
   \<and> (packet_accesses (receive_muse_data_packet s p) \<noteq> []
        \<or> host_calls (receive_muse_data_packet s p) \<noteq> []
        \<or> packet_accesses (receive_muse_artifact_packet s a) \<noteq> []
        \<or> host_calls (receive_muse_artifact_packet s a) \<noteq> [] \<longrightarrow>
       g_dataReceivedCallback s \<noteq> None)
   \<and> (g_dataReceivedCallback s \<noteq> None \<longrightarrow>
        packet_accesses (receive_muse_data_packet s p) =
          Access_packet_type #
          (case packet_type p of
             ACCELEROMETER \<Rightarrow>
               [Access_accelerometer_value Accelerometer_X,
                Access_accelerometer_value Accelerometer_Y,
                Access_accelerometer_value Accelerometer_Z]
           | BATTERY \<Rightarrow>
               [Access_battery_value CHARGE_PERCENTAGE_REMAINING,
                Access_battery_value MILLIVOLTS,
                Access_battery_value TEMPERATURE_CELSIUS]
           | EEG \<Rightarrow>
               [Access_eeg_channel_value EEG1, Access_eeg_channel_value EEG2,
                Access_eeg_channel_value EEG3, Access_eeg_channel_value EEG4,
                Access_eeg_channel_value AUX_LEFT, Access_eeg_channel_value AUX_RIGHT]
           | _ \<Rightarrow> []) @
          [Access_packet_type]
        \<and> packet_accesses (receive_muse_artifact_packet s a) =
            [Access_headband_on, Access_blink, Access_jaw_clench]
        \<and> length (host_calls (receive_muse_data_packet s p)) = 1
        \<and> length (host_calls (receive_muse_artifact_packet s a)) = 1)"
  by (cases "packet_type p"; cases "g_dataReceivedCallback s")
     (simp_all add: receive_muse_data_packet_def receive_muse_artifact_packet_def
        marshal_data_packet_def marshal_artifact_packet_def assign_def Let_def)

theorem data_adapter_skips_when_unset_witness:
  "g_dataReceivedCallback (startup (Some 1) [0] sample_objects) = None
   \<and> receive_muse_data_packet (startup (Some 1) [0] sample_objects) (sample_packet EEG) =
       \<lparr>packet_accesses = [], host_calls = []\<rparr>
   \<and> receive_muse_artifact_packet (startup (Some 1) [0] sample_objects) sample_artifact =
       \<lparr>packet_accesses = [], host_calls = []\<rparr>
   \<and> g_dataReceivedCallback
        (SetDataReceivedCallback (Some 5) (startup (Some 1) [0] sample_objects)) = Some 5
   \<and> packet_accesses (receive_muse_data_packet
        (SetDataReceivedCallback (Some 5) (startup (Some 1) [0] sample_objects))
        (sample_packet BATTERY)) =
       [Access_packet_type, Access_battery_value CHARGE_PERCENTAGE_REMAINING,
        Access_battery_value MILLIVOLTS, Access_battery_value TEMPERATURE_CELSIUS,
        Access_packet_type]
   \<and> packet_accesses (receive_muse_artifact_packet
        (SetDataReceivedCallback (Some 5) (startup (Some 1) [0] sample_objects))
        sample_artifact) =
       [Access_headband_on, Access_blink, Access_jaw_clench]
   \<and> host_calls (receive_muse_data_packet
        (SetDataReceivedCallback (Some 5) (startup (Some 1) [0] sample_objects))
        (sample_packet BATTERY)) =
       [DataReceived 5 BATTERY [80, 3700, 25, 0, 0, 0] 6]"
proof -
  let ?off = "startup (Some 1) [0] sample_objects"
  let ?on = "SetDataReceivedCallback (Some 5) (startup (Some 1) [0] sample_objects)"
  have unset: "g_dataReceivedCallback ?off = None"
    by (simp add: startup_def)
  have set: "g_dataReceivedCallback ?on = Some 5"
    by (simp add: SetDataReceivedCallback_def)
  have ty: "packet_type (sample_packet BATTERY) = BATTERY"
    by (simp add: sample_packet_def)
  have sent: "host_calls (receive_muse_data_packet ?on (sample_packet BATTERY)) =
       [DataReceived 5 BATTERY [80, 3700, 25, 0, 0, 0] 6]"
    by (simp add: receive_muse_data_packet_def SetDataReceivedCallback_def
          marshal_data_packet_def assign_def sample_packet_def)
  show ?thesis
    using unset set ty sent
      data_adapter_skips_when_unset
        [where s = ?off and p = "sample_packet EEG" and a = sample_artifact]
      data_adapter_skips_when_unset
        [where s = ?on and p = "sample_packet BATTERY" and a = sample_artifact]
    by simp
qed

section \<open>Facts about the SDK calls and the connect path\<close>

lemma invoke_eq:
  "invoke flt c effect s =
     (case flt c of
        Some e \<Rightarrow> (Inl e, s\<lparr>sdk_log := sdk_log s @ [c]\<rparr>)
      | None \<Rightarrow> (Inr (fst (effect (s\<lparr>sdk_log := sdk_log s @ [c]\<rparr>))),
                 snd (effect (s\<lparr>sdk_log := sdk_log s @ [c]\<rparr>))))"
  by (simp add: invoke_def Let_def split: option.splits prod.splits)

subsection \<open>The blocks of the connect path\<close>

lemma disconnect_previous_none:
  "g_currentMuse s = None \<Longrightarrow> disconnect_previous flt s = (Inr (), s)"
  by (simp add: disconnect_previous_def)

lemma disconnect_previous_throws:
  "g_currentMuse s = Some a \<Longrightarrow> flt (Call_disconnect a) = Some e \<Longrightarrow>
   disconnect_previous flt s = (Inl e, s\<lparr>sdk_log := sdk_log s @ [Call_disconnect a]\<rparr>)"
  by (simp add: disconnect_previous_def disconnect_def invoke_eq)

lemma disconnect_previous_returns:
  "g_currentMuse s = Some a \<Longrightarrow> flt (Call_disconnect a) = None \<Longrightarrow>
   disconnect_previous flt s =
     (Inr (), update_muse a (\<lambda>d. d\<lparr>running := False\<rparr>)
                (s\<lparr>sdk_log := sdk_log s @ [Call_disconnect a]\<rparr>))"
  by (simp add: disconnect_previous_def disconnect_def invoke_eq)

lemma create_listeners_fields:
  "g_manager (create_listeners s) = g_manager s"
  "g_currentMuse (create_listeners s) = g_currentMuse s"
  "g_museListChangedCallback (create_listeners s) = g_museListChangedCallback s"
  "g_connectionStateChangedCallback (create_listeners s) = g_connectionStateChangedCallback s"
  "g_dataReceivedCallback (create_listeners s) = g_dataReceivedCallback s"
  "g_listener (create_listeners s) = g_listener s"
  "muses (create_listeners s) = muses s"
  "listening (create_listeners s) = listening s"
  "muse_objects (create_listeners s) = muse_objects s"
  "sdk_log (create_listeners s) = sdk_log s"
  by (simp_all add: create_listeners_def make_shared_def Let_def split: option.splits)

lemma create_listeners_exist:
  "\<exists>l. g_connectionListener (create_listeners s) = Some l"
  "\<exists>l. g_dataListener (create_listeners s) = Some l"
  by (simp_all add: create_listeners_def make_shared_def Let_def split: option.splits)

lemma register_and_run_throws_register:
  "g_connectionListener s = Some l \<Longrightarrow>
   flt (Call_register_connection_listener m (Some l)) = Some e \<Longrightarrow>
   register_and_run flt m s =
     (Inl e, s\<lparr>sdk_log := sdk_log s @ [Call_register_connection_listener m (Some l)]\<rparr>)"
  by (simp add: register_and_run_def register_connection_listener_def invoke_eq)

lemma register_and_run_throws_run:
  "g_connectionListener s = Some l \<Longrightarrow>
   flt (Call_register_connection_listener m (Some l)) = None \<Longrightarrow>
   flt (Call_run_asynchronously m) = Some e \<Longrightarrow>
   register_and_run flt m s =
     (Inl e,
      update_muse m (\<lambda>d. d\<lparr>connection_listeners := connection_listeners d @ [l]\<rparr>)
        (s\<lparr>g_currentMuse := Some m,
           sdk_log := sdk_log s @ [Call_register_connection_listener m (Some l),
                                    Call_run_asynchronously m]\<rparr>))"
  by (simp add: register_and_run_def register_connection_listener_def run_asynchronously_def
        invoke_eq update_muse_def Let_def)

lemma register_and_run_returns:
  "g_connectionListener s = Some l \<Longrightarrow>
   flt (Call_register_connection_listener m (Some l)) = None \<Longrightarrow>
   flt (Call_run_asynchronously m) = None \<Longrightarrow>
   register_and_run flt m s =
     (Inr True,
      update_muse m
        (\<lambda>d. d\<lparr>connection_listeners := connection_listeners d @ [l], running := True\<rparr>)
        (s\<lparr>g_currentMuse := Some m,
           sdk_log := sdk_log s @ [Call_register_connection_listener m (Some l),
                                    Call_run_asynchronously m]\<rparr>))"
  by (simp add: register_and_run_def register_connection_listener_def run_asynchronously_def
        invoke_eq update_muse_def Let_def)

lemma connect_matched_preserves:
  assumes dp: "\<And>s. Q s \<Longrightarrow> Q (snd (disconnect_previous flt s))"
    and cl: "\<And>s. Q s \<Longrightarrow> Q (create_listeners s)"
    and rr: "\<And>s. Q s \<Longrightarrow> g_connectionListener s \<noteq> None \<Longrightarrow> g_dataListener s \<noteq> None \<Longrightarrow>
               Q (snd (register_and_run flt m s))"
    and Q: "Q s"
  shows "Q (snd (connect_matched flt m s))"
proof (cases "disconnect_previous flt s")
  case (Pair r s1)
  have q1: "Q s1"
    using dp [OF Q] Pair by simp
  show ?thesis
  proof (cases r)
    case (Inl e)
    then show ?thesis
      using Pair q1 by (simp add: connect_matched_def)
  next
    case (Inr u)
    have "Q (snd (register_and_run flt m (create_listeners s1)))"
      using rr [OF cl [OF q1]] create_listeners_exist [of s1] by auto
    then show ?thesis
      using Pair Inr by (simp add: connect_matched_def)
  qed
qed

lemma connect_scan_preserves:
  assumes lg: "\<And>s l. Q s \<Longrightarrow> Q (s\<lparr>sdk_log := l\<rparr>)"
    and cm: "\<And>s m. Q s \<Longrightarrow> Q (snd (connect_matched flt m s))"
  shows "Q s \<Longrightarrow> Q (snd (connect_scan flt name ms s))"
proof (induction ms arbitrary: s)
  case Nil
  then show ?case by simp
next
  case (Cons m ms)
  let ?s1 = "s\<lparr>sdk_log := sdk_log s @ [Call_get_name m]\<rparr>"
  have q1: "Q ?s1"
    using lg [OF Cons.prems] .
  show ?case
  proof (cases "flt (Call_get_name m)")
    case (Some e)
    then show ?thesis
      using q1 by (simp add: get_name_def invoke_eq)
  next
    case None
    then show ?thesis
      using Cons.IH [OF q1] cm [OF q1, of m]
      by (simp add: get_name_def invoke_eq)
  qed
qed

lemma ConnectToMuse_preserves:
  assumes lg: "\<And>s l. Q s \<Longrightarrow> Q (s\<lparr>sdk_log := l\<rparr>)"
    and cm: "\<And>s m. Q s \<Longrightarrow> Q (snd (connect_matched flt m s))"
    and Q: "Q s"
  shows "Q (snd (ConnectToMuse flt name s))"
proof (cases "g_manager s = None \<or> flt Call_get_muses \<noteq> None")
  case True
  then show ?thesis
    using Q lg [OF Q, of "sdk_log s @ [Call_get_muses]"]
    by (auto simp: ConnectToMuse_def get_muses_def invoke_eq)
next
  case False
  let ?s1 = "s\<lparr>sdk_log := sdk_log s @ [Call_get_muses]\<rparr>"
  have "Q (snd (connect_scan flt name (muses s) ?s1))"
    using connect_scan_preserves [of Q flt ?s1 name "muses s"] lg cm Q by blast
  then show ?thesis
    using False
    by (auto simp: ConnectToMuse_def get_muses_def invoke_eq split: prod.splits sum.splits)
qed

subsection \<open>Teardown when the SDK disconnect throws\<close>

lemma DisconnectMuse_throws:
  "g_currentMuse s = Some m \<Longrightarrow> flt (Call_disconnect m) = Some e \<Longrightarrow>
   DisconnectMuse flt s = s\<lparr>sdk_log := sdk_log s @ [Call_disconnect m]\<rparr>"
  by (simp add: DisconnectMuse_def disconnect_def invoke_eq)

lemma StopMuseManager_throws:
  "g_currentMuse s = Some m \<Longrightarrow> flt (Call_disconnect m) = Some e \<Longrightarrow>
   StopMuseManager flt s = s\<lparr>sdk_log := sdk_log s @ [Call_disconnect m]\<rparr>"
  by (simp add: StopMuseManager_def disconnect_def invoke_eq)

subsection \<open>With a current device both listener objects exist\<close>

lemma connect_matched_listeners_present:
  "listeners_present s \<Longrightarrow> listeners_present (snd (connect_matched flt m s))"
proof (rule connect_matched_preserves [where Q = listeners_present])
  fix s :: bridge assume "listeners_present s"
  then show "listeners_present (snd (disconnect_previous flt s))"
    by (simp add: listeners_present_def disconnect_previous_def disconnect_def invoke_eq
          update_muse_def split: option.splits)
next
  fix s :: bridge
  show "listeners_present (create_listeners s)"
    using create_listeners_exist [of s] by (auto simp: listeners_present_def)
next
  fix s :: bridge assume "g_connectionListener s \<noteq> None" "g_dataListener s \<noteq> None"
  then show "listeners_present (snd (register_and_run flt m s))"
    by (auto simp: listeners_present_def register_and_run_def register_connection_listener_def
          run_asynchronously_def invoke_eq update_muse_def Let_def split: option.splits)
qed

lemma ConnectToMuse_listeners_present:
  "listeners_present s \<Longrightarrow> listeners_present (snd (ConnectToMuse flt name s))"
  by (rule ConnectToMuse_preserves [where Q = listeners_present])
     (simp_all add: listeners_present_def connect_matched_listeners_present [unfolded listeners_present_def])

subsection \<open>The scan\<close>

lemma connect_scan_no_match:
  "\<forall>m\<in>set ms. muse_name (muse_objects s m) \<noteq> name \<Longrightarrow>
   fst (connect_scan flt name ms s) \<noteq> Inr True
   \<and> (\<exists>lg. snd (connect_scan flt name ms s) = s\<lparr>sdk_log := sdk_log s @ lg\<rparr>)"
proof (induction ms arbitrary: s)
  case Nil
  show ?case by (auto intro!: exI [where x = "[]"])
next
  case (Cons m ms)
  let ?s1 = "s\<lparr>sdk_log := sdk_log s @ [Call_get_name m]\<rparr>"
  show ?case
  proof (cases "flt (Call_get_name m)")
    case (Some e)
    then show ?thesis
      by (auto simp: get_name_def invoke_eq)
  next
    case None
    have "\<forall>d\<in>set ms. muse_name (muse_objects ?s1 d) \<noteq> name"
      using Cons.prems by simp
    from Cons.IH [OF this] obtain lg where
      r: "fst (connect_scan flt name ms ?s1) \<noteq> Inr True"
      and st: "snd (connect_scan flt name ms ?s1) = ?s1\<lparr>sdk_log := sdk_log ?s1 @ lg\<rparr>"
      by blast
    have "snd (connect_scan flt name ms ?s1) = s\<lparr>sdk_log := sdk_log s @ (Call_get_name m # lg)\<rparr>"
      using st by simp
    then show ?thesis
      using None r Cons.prems by (auto simp: get_name_def invoke_eq)
  qed
qed

lemma connect_scan_True:
  "connect_scan flt name ms s = (Inr True, s') \<Longrightarrow>
   \<exists>m. find (\<lambda>d. muse_name (muse_objects s d) = name) ms = Some m
     \<and> connect_matched flt m
          (s\<lparr>sdk_log := sdk_log s @
               map Call_get_name (takeWhile (\<lambda>d. muse_name (muse_objects s d) \<noteq> name) ms) @
               [Call_get_name m]\<rparr>) = (Inr True, s')"
proof (induction ms arbitrary: s)
  case Nil
  then show ?case by simp
next
  case (Cons m ms)
  let ?s1 = "s\<lparr>sdk_log := sdk_log s @ [Call_get_name m]\<rparr>"
  have ret: "flt (Call_get_name m) = None"
    using Cons.prems by (cases "flt (Call_get_name m)") (simp_all add: get_name_def invoke_eq)
  show ?case
  proof (cases "muse_name (muse_objects s m) = name")
    case True
    then show ?thesis
      using Cons.prems ret by (simp add: get_name_def invoke_eq)
  next
    case False
    then have "connect_scan flt name ms ?s1 = (Inr True, s')"
      using Cons.prems ret by (simp add: get_name_def invoke_eq)
    from Cons.IH [OF this] show ?thesis
      using False by simp
  qed
qed

lemma connect_scan_found:
  "find (\<lambda>d. muse_name (muse_objects s d) = name) ms = Some m \<Longrightarrow>
   \<forall>d\<in>set ms. flt (Call_get_name d) = None \<Longrightarrow>
   connect_scan flt name ms s =
     connect_matched flt m
       (s\<lparr>sdk_log := sdk_log s @
            map Call_get_name (takeWhile (\<lambda>d. muse_name (muse_objects s d) \<noteq> name) ms) @
            [Call_get_name m]\<rparr>)"
proof (induction ms arbitrary: s)
  case Nil
  then show ?case by simp
next
  case (Cons d ms)
  let ?s1 = "s\<lparr>sdk_log := sdk_log s @ [Call_get_name d]\<rparr>"
  show ?case
  proof (cases "muse_name (muse_objects s d) = name")
    case True
    then show ?thesis
      using Cons.prems by (simp add: get_name_def invoke_eq)
  next
    case False
    then have "find (\<lambda>x. muse_name (muse_objects ?s1 x) = name) ms = Some m"
      using Cons.prems by simp
    from Cons.IH [OF this] show ?thesis
      using False Cons.prems by (simp add: get_name_def invoke_eq)
  qed
qed

subsection \<open>ConnectToMuse as a whole\<close>

lemma ConnectToMuse_no_match:
  assumes "first_match s name = None"
  shows "\<not> fst (ConnectToMuse flt name s)"
    and "\<exists>lg. snd (ConnectToMuse flt name s) = s\<lparr>sdk_log := sdk_log s @ lg\<rparr>"
proof -
  let ?s1 = "s\<lparr>sdk_log := sdk_log s @ [Call_get_muses]\<rparr>"
  have nm: "\<forall>m\<in>set (muses s). muse_name (muse_objects ?s1 m) \<noteq> name"
    using assms by (simp add: first_match_def find_None_iff)
  from connect_scan_no_match [OF nm, of flt] obtain lg where
    r: "fst (connect_scan flt name (muses s) ?s1) \<noteq> Inr True"
    and st: "snd (connect_scan flt name (muses s) ?s1) = ?s1\<lparr>sdk_log := sdk_log ?s1 @ lg\<rparr>"
    by blast
  have st': "snd (connect_scan flt name (muses s) ?s1) = s\<lparr>sdk_log := sdk_log s @ (Call_get_muses # lg)\<rparr>"
    using st by simp
  show "\<not> fst (ConnectToMuse flt name s)"
    using r by (auto simp: ConnectToMuse_def get_muses_def invoke_eq
                  split: option.splits prod.splits sum.splits)
  have "snd (ConnectToMuse flt name s) = s\<lparr>sdk_log := sdk_log s @ []\<rparr>
      \<or> snd (ConnectToMuse flt name s) = s\<lparr>sdk_log := sdk_log s @ [Call_get_muses]\<rparr>
      \<or> snd (ConnectToMuse flt name s) = s\<lparr>sdk_log := sdk_log s @ (Call_get_muses # lg)\<rparr>"
    using st' by (auto simp: ConnectToMuse_def get_muses_def invoke_eq
                  split: option.splits prod.splits sum.splits)
  then show "\<exists>lg. snd (ConnectToMuse flt name s) = s\<lparr>sdk_log := sdk_log s @ lg\<rparr>"
    by blast
qed

lemma ConnectToMuse_True:
  assumes "fst (ConnectToMuse flt name s)"
  shows "\<exists>m. first_match s name = Some m
     \<and> g_manager s \<noteq> None
     \<and> connect_matched flt m (s\<lparr>sdk_log := sdk_log s @ scan_calls s name\<rparr>) =
         (Inr True, snd (ConnectToMuse flt name s))"
proof -
  let ?s1 = "s\<lparr>sdk_log := sdk_log s @ [Call_get_muses]\<rparr>"
  have mgr: "g_manager s \<noteq> None" and ret: "flt Call_get_muses = None"
    using assms by (auto simp: ConnectToMuse_def get_muses_def invoke_eq split: option.splits if_splits)
  have "connect_scan flt name (muses s) ?s1 = (Inr True, snd (ConnectToMuse flt name s))"
    using assms mgr ret
    by (auto simp: ConnectToMuse_def get_muses_def invoke_eq split: prod.splits sum.splits)
  from connect_scan_True [OF this] show ?thesis
    using mgr by (auto simp: first_match_def scan_calls_def)
qed

lemma ConnectToMuse_found:
  assumes "g_manager s \<noteq> None" and "first_match s name = Some m"
    and "flt Call_get_muses = None" and "\<forall>d\<in>set (muses s). flt (Call_get_name d) = None"
  shows "ConnectToMuse flt name s =
     (case connect_matched flt m (s\<lparr>sdk_log := sdk_log s @ scan_calls s name\<rparr>) of
        (Inl e, s2) \<Rightarrow> (False, s2)
      | (Inr r, s2) \<Rightarrow> (r, s2))"
proof -
  let ?s1 = "s\<lparr>sdk_log := sdk_log s @ [Call_get_muses]\<rparr>"
  have "find (\<lambda>d. muse_name (muse_objects ?s1 d) = name) (muses s) = Some m"
    using assms(2) by (simp add: first_match_def)
  from connect_scan_found [OF this assms(4)] show ?thesis
    using assms(1-3) by (auto simp: ConnectToMuse_def get_muses_def invoke_eq scan_calls_def)
qed

lemma disconnect_previous_Inr:
  assumes "disconnect_previous flt s = (Inr u, s1)"
  shows "s1 = (case g_currentMuse s of
                 None \<Rightarrow> s
               | Some a \<Rightarrow> update_muse a (\<lambda>d. d\<lparr>running := False\<rparr>)
                             (s\<lparr>sdk_log := sdk_log s @ [Call_disconnect a]\<rparr>))"
proof (cases "g_currentMuse s")
  case None
  then show ?thesis
    using assms by (simp add: disconnect_previous_none)
next
  case (Some a)
  show ?thesis
  proof (cases "flt (Call_disconnect a)")
    case None
    then show ?thesis
      using assms Some by (simp add: disconnect_previous_returns)
  next
    case (Some e)
    then show ?thesis
      using assms \<open>g_currentMuse s = Some a\<close> by (simp add: disconnect_previous_throws)
  qed
qed

lemma register_and_run_Inr:
  assumes "register_and_run flt m s = (Inr r, s')" and "g_connectionListener s = Some l"
  shows "r \<and> s' =
      update_muse m
        (\<lambda>d. d\<lparr>connection_listeners := connection_listeners d @ [l], running := True\<rparr>)
        (s\<lparr>g_currentMuse := Some m,
           sdk_log := sdk_log s @ [Call_register_connection_listener m (Some l),
                                    Call_run_asynchronously m]\<rparr>)"
proof (cases "flt (Call_register_connection_listener m (Some l))")
  case (Some e)
  then show ?thesis
    using assms by (simp add: register_and_run_throws_register)
next
  case None
  show ?thesis
  proof (cases "flt (Call_run_asynchronously m)")
    case (Some e)
    then show ?thesis
      using assms None by (simp add: register_and_run_throws_run)
  next
    case None
    then show ?thesis
      using assms \<open>flt (Call_register_connection_listener m (Some l)) = None\<close>
      by (simp add: register_and_run_returns)
  qed
qed

lemma connect_matched_Inr:
  assumes "connect_matched flt m s = (Inr r, s')"
  shows "r"
    and "g_currentMuse s' = Some m"
    and "\<exists>l. g_connectionListener s' = Some l
           \<and> l \<in> set (connection_listeners (muse_objects s' m))
           \<and> sdk_log s' = sdk_log s
                @ (case g_currentMuse s of None \<Rightarrow> [] | Some a \<Rightarrow> [Call_disconnect a])
                @ [Call_register_connection_listener m (Some l), Call_run_asynchronously m]"
    and "g_dataListener s' \<noteq> None"
    and "running (muse_objects s' m)"
    and "\<forall>a. g_currentMuse s = Some a \<and> a \<noteq> m \<longrightarrow> \<not> running (muse_objects s' a)"
proof -
  obtain res s1 where dp: "disconnect_previous flt s = (res, s1)"
    by (cases "disconnect_previous flt s")
  obtain u where res: "res = Inr u"
    using assms dp by (cases res) (simp_all add: connect_matched_def)
  have s1: "s1 = (case g_currentMuse s of
                 None \<Rightarrow> s
               | Some a \<Rightarrow> update_muse a (\<lambda>d. d\<lparr>running := False\<rparr>)
                             (s\<lparr>sdk_log := sdk_log s @ [Call_disconnect a]\<rparr>))"
    using disconnect_previous_Inr dp res by blast
  obtain l where l: "g_connectionListener (create_listeners s1) = Some l"
    using create_listeners_exist(1) by blast
  obtain dl where dl: "g_dataListener (create_listeners s1) = Some dl"
    using create_listeners_exist(2) by blast
  have rr: "register_and_run flt m (create_listeners s1) = (Inr r, s')"
    using assms dp res by (simp add: connect_matched_def)
  note fin = register_and_run_Inr [OF rr l]
  show "r" using fin by simp
  show "g_currentMuse s' = Some m"
    using fin by (simp add: update_muse_def)
  show "g_dataListener s' \<noteq> None"
    using fin dl by (simp add: update_muse_def)
  show "running (muse_objects s' m)"
    using fin by (simp add: update_muse_def)
  show "\<forall>a. g_currentMuse s = Some a \<and> a \<noteq> m \<longrightarrow> \<not> running (muse_objects s' a)"
    using fin s1 by (simp add: update_muse_def create_listeners_fields)
  have "g_connectionListener s' = Some l
           \<and> l \<in> set (connection_listeners (muse_objects s' m))
           \<and> sdk_log s' = sdk_log s
                @ (case g_currentMuse s of None \<Rightarrow> [] | Some a \<Rightarrow> [Call_disconnect a])
                @ [Call_register_connection_listener m (Some l), Call_run_asynchronously m]"
    using fin s1 l by (simp add: update_muse_def create_listeners_fields split: option.splits)
  then show "\<exists>l. g_connectionListener s' = Some l
           \<and> l \<in> set (connection_listeners (muse_objects s' m))
           \<and> sdk_log s' = sdk_log s
                @ (case g_currentMuse s of None \<Rightarrow> [] | Some a \<Rightarrow> [Call_disconnect a])
                @ [Call_register_connection_listener m (Some l), Call_run_asynchronously m]"
    by blast
qed

lemma connect_matched_disconnect_throws:
  "g_currentMuse s = Some a \<Longrightarrow> flt (Call_disconnect a) = Some e \<Longrightarrow>
   connect_matched flt m s = (Inl e, s\<lparr>sdk_log := sdk_log s @ [Call_disconnect a]\<rparr>)"
  by (simp add: connect_matched_def disconnect_previous_throws)

lemma connect_matched_returns:
  assumes "\<forall>a. g_currentMuse s = Some a \<longrightarrow> flt (Call_disconnect a) = None"
    and "\<forall>l. flt (Call_register_connection_listener m l) = None"
    and "flt (Call_run_asynchronously m) = None"
  shows "fst (connect_matched flt m s) = Inr True"
proof -
  have "\<exists>s1. disconnect_previous flt s = (Inr (), s1)"
    using assms(1)
    by (cases "g_currentMuse s") (simp_all add: disconnect_previous_none disconnect_previous_returns)
  then obtain s1 where dp: "disconnect_previous flt s = (Inr (), s1)" ..
  obtain l where l: "g_connectionListener (create_listeners s1) = Some l"
    using create_listeners_exist(1) by blast
  show ?thesis
    using dp register_and_run_returns [OF l, of flt m] assms(2,3)
    by (simp add: connect_matched_def)
qed

lemma connect_matched_data_listeners:
  "\<forall>d. data_listeners (muse_objects (snd (connect_matched flt m s)) d) =
        data_listeners (muse_objects s d)"
proof -
  let ?Q = "\<lambda>t::bridge. \<forall>d. data_listeners (muse_objects t d) = data_listeners (muse_objects s d)"
  have "?Q (snd (connect_matched flt m s))"
  proof (rule connect_matched_preserves [where Q = ?Q])
    fix t :: bridge assume "?Q t"
    then show "?Q (snd (disconnect_previous flt t))"
      by (simp add: disconnect_previous_def disconnect_def invoke_eq update_muse_def
            split: option.splits)
  next
    fix t :: bridge assume "?Q t"
    then show "?Q (create_listeners t)"
      by (simp add: create_listeners_fields)
  next
    fix t :: bridge assume "?Q t"
    then show "?Q (snd (register_and_run flt m t))"
      by (simp add: register_and_run_def register_connection_listener_def
            run_asynchronously_def invoke_eq update_muse_def Let_def split: option.splits)
  qed simp
  then show ?thesis .
qed

lemma ConnectToMuse_data_listeners:
  "\<forall>d. data_listeners (muse_objects (snd (ConnectToMuse flt name s)) d) =
        data_listeners (muse_objects s d)"
proof -
  let ?Q = "\<lambda>t::bridge. \<forall>d. data_listeners (muse_objects t d) = data_listeners (muse_objects s d)"
  have "?Q (snd (ConnectToMuse flt name s))"
  proof (rule ConnectToMuse_preserves [where Q = ?Q])
    fix t :: bridge and m assume "?Q t"
    then show "?Q (snd (connect_matched flt m t))"
      using connect_matched_data_listeners [of flt m t] by simp
  qed simp_all
  then show ?thesis .
qed

subsection \<open>No device but the current one is started\<close>





lemma run_op_listeners_present:
  assumes "listeners_present s"
  shows "listeners_present (run_op flt op s)"
proof (cases op)
  case Op_GetMuseManager
  then show ?thesis
    using assms
    by (auto simp: listeners_present_def GetMuseManager_def get_instance_def set_muse_listener_def
          make_shared_def invoke_eq Let_def split: option.splits exn.splits)
next
  case Op_StartListening
  then show ?thesis
    using assms
    by (auto simp: listeners_present_def StartListening_def start_listening_def invoke_eq
          split: option.splits)
next
  case Op_StopListening
  then show ?thesis
    using assms
    by (auto simp: listeners_present_def StopListening_def stop_listening_def invoke_eq
          split: option.splits)
next
  case Op_GetMuseCount
  then show ?thesis
    using assms
    by (auto simp: listeners_present_def GetMuseCount_def get_muses_def invoke_eq
          split: option.splits)
next
  case (Op_GetMuseName index)
  then show ?thesis
    using assms
    by (auto simp: listeners_present_def GetMuseName_def get_muses_def get_name_def invoke_eq
          split: option.splits)
next
  case (Op_ConnectToMuse name)
  then show ?thesis
    using assms by (simp add: ConnectToMuse_listeners_present)
next
  case Op_DisconnectMuse
  then show ?thesis
    using assms
    by (auto simp: listeners_present_def DisconnectMuse_def disconnect_def invoke_eq update_muse_def
          split: option.splits)
next
  case (Op_RegisterDataListener t)
  then show ?thesis
    using assms
    by (auto simp: listeners_present_def RegisterDataListener_def register_data_listener_def
          invoke_eq update_muse_def split: option.splits)
next
  case (Op_UnregisterDataListener t)
  then show ?thesis
    using assms
    by (auto simp: listeners_present_def UnregisterDataListener_def unregister_data_listener_def
          invoke_eq update_muse_def split: option.splits)
next
  case (Op_SetMuseListChangedCallback c)
  then show ?thesis
    using assms by (auto simp: listeners_present_def SetMuseListChangedCallback_def)
next
  case (Op_SetConnectionStateChangedCallback c)
  then show ?thesis
    using assms by (auto simp: listeners_present_def SetConnectionStateChangedCallback_def)
next
  case (Op_SetDataReceivedCallback c)
  then show ?thesis
    using assms by (auto simp: listeners_present_def SetDataReceivedCallback_def)
next
  case Op_StopMuseManager
  then show ?thesis
    using assms
    by (auto simp: listeners_present_def StopMuseManager_def disconnect_def stop_listening_def
          invoke_eq update_muse_def split: option.splits)
qed

subsection \<open>A connect attempt never clears the current device\<close>



subsection \<open>Which exported function adds a data listener\<close>

lemma RegisterDataListener_True:
  assumes "fst (RegisterDataListener flt t s)"
  shows "\<exists>m l. g_currentMuse s = Some m \<and> g_dataListener s = Some l
     \<and> flt (Call_register_data_listener m (Some l) t) = None
     \<and> data_listeners (muse_objects (snd (RegisterDataListener flt t s)) m) =
         data_listeners (muse_objects s m) @ [(l, t)]"
proof -
  obtain m where m: "g_currentMuse s = Some m"
    using assms by (cases "g_currentMuse s") (simp_all add: RegisterDataListener_def)
  obtain l where l: "g_dataListener s = Some l"
    using assms m by (cases "g_dataListener s") (simp_all add: RegisterDataListener_def)
  have ret: "flt (Call_register_data_listener m (Some l) t) = None"
    using assms m l
    by (cases "flt (Call_register_data_listener m (Some l) t)")
       (simp_all add: RegisterDataListener_def register_data_listener_def invoke_eq)
  have "data_listeners (muse_objects (snd (RegisterDataListener flt t s)) m) =
         data_listeners (muse_objects s m) @ [(l, t)]"
    using m l ret
    by (simp add: RegisterDataListener_def register_data_listener_def invoke_eq update_muse_def)
  then show ?thesis
    using m l ret by blast
qed

lemma RegisterDataListener_returns:
  "g_currentMuse s = Some m \<Longrightarrow> g_dataListener s = Some l \<Longrightarrow>
   flt (Call_register_data_listener m (Some l) t) = None \<Longrightarrow>
   fst (RegisterDataListener flt t s)"
  by (simp add: RegisterDataListener_def register_data_listener_def invoke_eq)

lemma run_op_data_listeners:
  assumes "\<forall>t. op \<noteq> Op_RegisterDataListener t"
  shows "set (data_listeners (muse_objects (run_op flt op s) d)) \<subseteq>
         set (data_listeners (muse_objects s d))"
proof (cases op)
  case Op_GetMuseManager
  then show ?thesis
    by (auto simp: GetMuseManager_def get_instance_def set_muse_listener_def
          make_shared_def invoke_eq Let_def split: option.splits exn.splits)
next
  case Op_StartListening
  then show ?thesis
    by (auto simp: StartListening_def start_listening_def invoke_eq split: option.splits)
next
  case Op_StopListening
  then show ?thesis
    by (auto simp: StopListening_def stop_listening_def invoke_eq split: option.splits)
next
  case Op_GetMuseCount
  then show ?thesis
    by (auto simp: GetMuseCount_def get_muses_def invoke_eq split: option.splits)
next
  case (Op_GetMuseName index)
  then show ?thesis
    by (auto simp: GetMuseName_def get_muses_def get_name_def invoke_eq split: option.splits)
next
  case (Op_ConnectToMuse name)
  then show ?thesis
    using ConnectToMuse_data_listeners [of flt name s] by simp
next
  case Op_DisconnectMuse
  then show ?thesis
    by (auto simp: DisconnectMuse_def disconnect_def invoke_eq update_muse_def
          split: option.splits)
next
  case (Op_RegisterDataListener t)
  then show ?thesis
    using assms by simp
next
  case (Op_UnregisterDataListener t)
  then show ?thesis
    by (auto simp: UnregisterDataListener_def unregister_data_listener_def invoke_eq
          update_muse_def split: option.splits)
next
  case (Op_SetMuseListChangedCallback c)
  then show ?thesis
    by (simp add: SetMuseListChangedCallback_def)
next
  case (Op_SetConnectionStateChangedCallback c)
  then show ?thesis
    by (simp add: SetConnectionStateChangedCallback_def)
next
  case (Op_SetDataReceivedCallback c)
  then show ?thesis
    by (simp add: SetDataReceivedCallback_def)
next
  case Op_StopMuseManager
  then show ?thesis
    by (auto simp: StopMuseManager_def disconnect_def stop_listening_def invoke_eq
          update_muse_def split: option.splits)
qed

subsection \<open>Evaluating the concrete inputs\<close>

lemmas eval_defs = sample_subscribed_def sample_connected_def sample_ready_def startup_def
  sample_objects_def no_faults_def disconnect_0_throws_def register_on_1_throws_def
  first_match_def scan_calls_def
  GetMuseManager_def GetMuseCount_def GetMuseName_def ConnectToMuse_def connect_matched_def
  disconnect_previous_def create_listeners_def register_and_run_def DisconnectMuse_def
  RegisterDataListener_def UnregisterDataListener_def StopMuseManager_def StartListening_def
  StopListening_def invoke_def update_muse_def get_instance_def set_muse_listener_def
  start_listening_def stop_listening_def get_muses_def get_name_def disconnect_def
  register_connection_listener_def run_asynchronously_def register_data_listener_def
  unregister_data_listener_def make_shared_def Let_def

subsection \<open>The device count as a 32-bit integer\<close>

lemma sint_count: "n < 2 ^ 31 \<Longrightarrow> sint (word_of_nat n :: 32 word) = int n"
  by (simp add: signed_of_nat signed_take_bit_int_eq_self)

section \<open>Enumerating devices\<close>

text \<open>
  C9. \<open>GetMuseName\<close> returns a string for every 32-bit index and every behaviour of the
  SDK. It returns the empty string when the manager is not initialised, when reading the
  device list or the device name throws, when the index is negative and when the index
  is at least the number of devices; so it does for the index -1 and, as long as the
  number of devices fits a non-negative \<open>int\<close>, for the index that \<open>GetMuseCount\<close>
  returns.
\<close>

theorem GetMuseName_out_of_range:
  "(g_manager s = None \<or> flt Call_get_muses \<noteq> None \<or> sint index < 0
      \<or> int (length (muses s)) \<le> sint index \<longrightarrow>
      fst (GetMuseName flt index s) = '''')
   \<and> (flt (Call_get_name (muses s ! nat (sint index))) \<noteq> None \<longrightarrow>
        fst (GetMuseName flt index s) = '''')
   \<and> fst (GetMuseName flt (- 1) s) = ''''
   \<and> (length (muses s) < 2 ^ 31 \<longrightarrow>
        fst (GetMuseName flt (fst (GetMuseCount flt s)) (snd (GetMuseCount flt s))) = '''')"
proof (intro conjI impI)
  assume "flt (Call_get_name (muses s ! nat (sint index))) \<noteq> None"
  then show "fst (GetMuseName flt index s) = ''''"
    by (auto simp: GetMuseName_def get_muses_def get_name_def invoke_eq
          split: option.splits prod.splits sum.splits)
next
  assume "g_manager s = None \<or> flt Call_get_muses \<noteq> None \<or> sint index < 0
      \<or> int (length (muses s)) \<le> sint index"
  then show "fst (GetMuseName flt index s) = ''''"
    by (auto simp: GetMuseName_def get_muses_def invoke_eq split: option.splits prod.splits sum.splits)
next
  show "fst (GetMuseName flt (- 1) s) = ''''"
    by (auto simp: GetMuseName_def get_muses_def invoke_eq split: option.splits prod.splits sum.splits)
next
  assume len: "length (muses s) < 2 ^ 31"
  show "fst (GetMuseName flt (fst (GetMuseCount flt s)) (snd (GetMuseCount flt s))) = ''''"
    using sint_count [OF len]
    by (auto simp: GetMuseName_def GetMuseCount_def get_muses_def invoke_eq
          split: option.splits prod.splits sum.splits)
qed

theorem GetMuseName_out_of_range_witness:
  "g_manager (startup (Some 1) [0, 1, 2] sample_objects) = None
   \<and> fst (GetMuseName no_faults 0 (startup (Some 1) [0, 1, 2] sample_objects)) = ''''
   \<and> int (length (muses sample_ready)) \<le> sint (3 :: 32 word)
   \<and> fst (GetMuseName no_faults 3 sample_ready) = ''''
   \<and> fst (GetMuseName no_faults (- 1) sample_ready) = ''''
   \<and> length (muses sample_ready) < 2 ^ 31
   \<and> fst (GetMuseCount no_faults sample_ready) = 3
   \<and> fst (GetMuseName no_faults (fst (GetMuseCount no_faults sample_ready))
            (snd (GetMuseCount no_faults sample_ready))) = ''''
   \<and> fst (GetMuseName no_faults 2 sample_ready) = ''Muse-B''"
proof -
  have a: "g_manager (startup (Some 1) [0, 1, 2] sample_objects) = None"
    by (simp add: startup_def)
  have b: "int (length (muses sample_ready)) \<le> sint (3 :: 32 word)"
    by (simp add: eval_defs)
  have c: "length (muses sample_ready) < 2 ^ 31"
    by (simp add: eval_defs)
  have d: "fst (GetMuseCount no_faults sample_ready) = 3"
    by (simp add: eval_defs)
  have e: "fst (GetMuseName no_faults 2 sample_ready) = ''Muse-B''"
    by (simp add: eval_defs)
  show ?thesis
    using a b c d e
      GetMuseName_out_of_range
        [where s = "startup (Some 1) [0, 1, 2] sample_objects" and flt = no_faults and index = 0]
      GetMuseName_out_of_range [where s = sample_ready and flt = no_faults and index = 3]
    by simp
qed

section \<open>Connecting\<close>

text \<open>
  C2, as the code has it. Whenever \<open>ConnectToMuse\<close> returns true, the first device of the
  snapshot with the given name is the current device, the connection listener exists and
  has been registered on that device, and the data listener exists; but the data listener
  has not been attached: no device's data listeners have changed. It is attached by
  \<open>RegisterDataListener\<close>, per packet type: when that function returns true it has added
  the data listener, with the type given, to the current device, and it returns true
  whenever a device is current, the data listener exists and the SDK call returns. No
  other exported function adds a data listener to any device.
\<close>

theorem connect_attaches_connection_listener:
  "(fst (ConnectToMuse flt name s) \<longrightarrow>
      (\<exists>m l. first_match s name = Some m
         \<and> g_currentMuse (snd (ConnectToMuse flt name s)) = Some m
         \<and> g_connectionListener (snd (ConnectToMuse flt name s)) = Some l
         \<and> l \<in> set (connection_listeners (muse_objects (snd (ConnectToMuse flt name s)) m))
         \<and> Call_register_connection_listener m (Some l)
              \<in> set (sdk_log (snd (ConnectToMuse flt name s)))
         \<and> g_dataListener (snd (ConnectToMuse flt name s)) \<noteq> None
         \<and> (\<forall>d. data_listeners (muse_objects (snd (ConnectToMuse flt name s)) d) =
                  data_listeners (muse_objects s d))))
   \<and> (fst (RegisterDataListener flt t s) \<longrightarrow>
        (\<exists>m l. g_currentMuse s = Some m \<and> g_dataListener s = Some l
           \<and> data_listeners (muse_objects (snd (RegisterDataListener flt t s)) m) =
               data_listeners (muse_objects s m) @ [(l, t)]))
   \<and> (g_currentMuse s = Some c \<and> g_dataListener s = Some k
        \<and> flt (Call_register_data_listener c (Some k) t) = None \<longrightarrow>
        fst (RegisterDataListener flt t s))
   \<and> ((\<forall>u. op \<noteq> Op_RegisterDataListener u) \<longrightarrow>
        (\<forall>d. set (data_listeners (muse_objects (run_op flt op s) d)) \<subseteq>
              set (data_listeners (muse_objects s d))))"
proof (intro conjI impI)
  assume ok: "fst (ConnectToMuse flt name s)"
  from ConnectToMuse_True [OF ok] obtain m where
    fm: "first_match s name = Some m"
    and cm: "connect_matched flt m (s\<lparr>sdk_log := sdk_log s @ scan_calls s name\<rparr>) =
         (Inr True, snd (ConnectToMuse flt name s))"
    by blast
  from connect_matched_Inr(3) [OF cm] obtain l where
    "g_connectionListener (snd (ConnectToMuse flt name s)) = Some l"
    "l \<in> set (connection_listeners (muse_objects (snd (ConnectToMuse flt name s)) m))"
    "Call_register_connection_listener m (Some l) \<in> set (sdk_log (snd (ConnectToMuse flt name s)))"
    by auto
  then show "\<exists>m l. first_match s name = Some m
         \<and> g_currentMuse (snd (ConnectToMuse flt name s)) = Some m
         \<and> g_connectionListener (snd (ConnectToMuse flt name s)) = Some l
         \<and> l \<in> set (connection_listeners (muse_objects (snd (ConnectToMuse flt name s)) m))
         \<and> Call_register_connection_listener m (Some l)
              \<in> set (sdk_log (snd (ConnectToMuse flt name s)))
         \<and> g_dataListener (snd (ConnectToMuse flt name s)) \<noteq> None
         \<and> (\<forall>d. data_listeners (muse_objects (snd (ConnectToMuse flt name s)) d) =
                  data_listeners (muse_objects s d))"
    using fm connect_matched_Inr(2,4) [OF cm] ConnectToMuse_data_listeners [of flt name s]
    by blast
next
  assume "fst (RegisterDataListener flt t s)"
  from RegisterDataListener_True [OF this]
  show "\<exists>m l. g_currentMuse s = Some m \<and> g_dataListener s = Some l
           \<and> data_listeners (muse_objects (snd (RegisterDataListener flt t s)) m) =
               data_listeners (muse_objects s m) @ [(l, t)]"
    by blast
next
  assume "g_currentMuse s = Some c \<and> g_dataListener s = Some k
        \<and> flt (Call_register_data_listener c (Some k) t) = None"
  then show "fst (RegisterDataListener flt t s)"
    by (simp add: RegisterDataListener_returns)
next
  assume "\<forall>u. op \<noteq> Op_RegisterDataListener u"
  then show "\<forall>d. set (data_listeners (muse_objects (run_op flt op s) d)) \<subseteq>
              set (data_listeners (muse_objects s d))"
    using run_op_data_listeners by blast
qed

theorem connect_attaches_connection_listener_witness:
  "fst (ConnectToMuse no_faults ''Muse-A'' sample_ready)
   \<and> first_match sample_ready ''Muse-A'' = Some 0
   \<and> g_currentMuse (snd (ConnectToMuse no_faults ''Muse-A'' sample_ready)) = Some 0
   \<and> g_connectionListener (snd (ConnectToMuse no_faults ''Muse-A'' sample_ready)) = Some 1
   \<and> connection_listeners (muse_objects (snd (ConnectToMuse no_faults ''Muse-A'' sample_ready)) 0)
        = [1]
   \<and> g_dataListener (snd (ConnectToMuse no_faults ''Muse-A'' sample_ready)) = Some 2
   \<and> data_listeners (muse_objects (snd (ConnectToMuse no_faults ''Muse-A'' sample_ready)) 0) =
        data_listeners (muse_objects sample_ready 0)
   \<and> g_currentMuse sample_connected = Some 0
   \<and> g_dataListener sample_connected = Some 2
   \<and> no_faults (Call_register_data_listener 0 (Some 2) 2) = None
   \<and> fst (RegisterDataListener no_faults 2 sample_connected)
   \<and> data_listeners (muse_objects (snd (RegisterDataListener no_faults 2 sample_connected)) 0) =
        data_listeners (muse_objects sample_connected 0) @ [(2, 2)]
   \<and> set (data_listeners
        (muse_objects (run_op no_faults (Op_UnregisterDataListener 2) sample_subscribed) 0))
      \<subseteq> set (data_listeners (muse_objects sample_subscribed 0))
   \<and> data_listeners
        (muse_objects (run_op no_faults (Op_UnregisterDataListener 2) sample_subscribed) 0) = []"
proof -
  have h: "fst (ConnectToMuse no_faults ''Muse-A'' sample_ready)"
    by (simp add: eval_defs)
  have v: "first_match sample_ready ''Muse-A'' = Some 0
   \<and> g_currentMuse (snd (ConnectToMuse no_faults ''Muse-A'' sample_ready)) = Some 0
   \<and> g_connectionListener (snd (ConnectToMuse no_faults ''Muse-A'' sample_ready)) = Some 1
   \<and> connection_listeners (muse_objects (snd (ConnectToMuse no_faults ''Muse-A'' sample_ready)) 0)
        = [1]
   \<and> g_dataListener (snd (ConnectToMuse no_faults ''Muse-A'' sample_ready)) = Some 2"
    by (simp add: eval_defs)
  have c: "g_currentMuse sample_connected = Some 0" "g_dataListener sample_connected = Some 2"
      "no_faults (Call_register_data_listener 0 (Some 2) 2) = None"
    by (simp_all add: eval_defs)
  have u: "data_listeners
        (muse_objects (run_op no_faults (Op_UnregisterDataListener 2) sample_subscribed) 0) = []"
    by (simp add: eval_defs)
  have o: "\<forall>u. Op_UnregisterDataListener 2 \<noteq> Op_RegisterDataListener u"
    by simp
  note at_ready = connect_attaches_connection_listener
      [where s = sample_ready and flt = no_faults and name = "''Muse-A''" and t = 2
         and c = 0 and k = 2 and op = "Op_UnregisterDataListener 2"]
  note at_connected = connect_attaches_connection_listener
      [where s = sample_connected and flt = no_faults and name = "''Muse-A''" and t = 2
         and c = 0 and k = 2 and op = "Op_UnregisterDataListener 2"]
  note at_subscribed = connect_attaches_connection_listener
      [where s = sample_subscribed and flt = no_faults and name = "''Muse-A''" and t = 2
         and c = 0 and k = 2 and op = "Op_UnregisterDataListener 2"]
  have r: "fst (RegisterDataListener no_faults 2 sample_connected)"
    using c at_connected by simp
  have a: "data_listeners (muse_objects (snd (RegisterDataListener no_faults 2 sample_connected)) 0) =
        data_listeners (muse_objects sample_connected 0) @ [(2, 2)]"
    using r c at_connected by auto
  have d: "data_listeners (muse_objects (snd (ConnectToMuse no_faults ''Muse-A'' sample_ready)) 0) =
        data_listeners (muse_objects sample_ready 0)"
    using h at_ready by auto
  have s: "set (data_listeners
        (muse_objects (run_op no_faults (Op_UnregisterDataListener 2) sample_subscribed) 0))
      \<subseteq> set (data_listeners (muse_objects sample_subscribed 0))"
    using o at_subscribed by blast
  show ?thesis
    using h v c u r a d s by simp
qed

theorem connect_data_listener_not_attached_counterexample:
  "muse_name (muse_objects sample_ready 0) = ''Muse-A''
   \<and> fst (ConnectToMuse no_faults ''Muse-A'' sample_ready)
   \<and> g_currentMuse (snd (ConnectToMuse no_faults ''Muse-A'' sample_ready)) = Some 0
   \<and> g_dataListener (snd (ConnectToMuse no_faults ''Muse-A'' sample_ready)) = Some 2
   \<and> data_listeners (muse_objects (snd (ConnectToMuse no_faults ''Muse-A'' sample_ready)) 0) = []
   \<and> sdk_log (snd (ConnectToMuse no_faults ''Muse-A'' sample_ready)) =
        sdk_log sample_ready @
        [Call_get_muses, Call_get_name 0,
         Call_register_connection_listener 0 (Some 1), Call_run_asynchronously 0]"
  by (simp add: eval_defs)

text \<open>
  C5. \<open>ConnectToMuse\<close> reads the names of the snapshot in list order and connects to the
  first device whose name equals the argument: whenever it returns true, the current
  device is that first match, and when no SDK call throws and a match exists it does
  return true, after the lookups of the scan in order. When no device name matches it
  returns false and changes nothing but the record of SDK calls: manager handle, current
  device, listener objects, callback slots and every device's listeners stay as they
  were.
\<close>

theorem connect_first_match:
  "(first_match s name = Some m \<longleftrightarrow>
      (\<exists>i < length (muses s). muses s ! i = m \<and> muse_name (muse_objects s m) = name
         \<and> (\<forall>j < i. muse_name (muse_objects s (muses s ! j)) \<noteq> name)))
   \<and> (fst (ConnectToMuse flt name s) \<longrightarrow>
        first_match s name \<noteq> None
        \<and> g_currentMuse (snd (ConnectToMuse flt name s)) = first_match s name)
   \<and> (g_manager s \<noteq> None \<and> first_match s name = Some m \<and> (\<forall>c. flt c = None) \<longrightarrow>
        fst (ConnectToMuse flt name s)
        \<and> (\<exists>rest. sdk_log (snd (ConnectToMuse flt name s)) =
                     sdk_log s @ scan_calls s name @ rest))
   \<and> ((\<forall>d \<in> set (muses s). muse_name (muse_objects s d) \<noteq> name) \<longrightarrow>
        \<not> fst (ConnectToMuse flt name s)
        \<and> (\<exists>lg. snd (ConnectToMuse flt name s) = s\<lparr>sdk_log := sdk_log s @ lg\<rparr>)
        \<and> g_manager (snd (ConnectToMuse flt name s)) = g_manager s
        \<and> g_currentMuse (snd (ConnectToMuse flt name s)) = g_currentMuse s
        \<and> muse_objects (snd (ConnectToMuse flt name s)) = muse_objects s
        \<and> g_museListChangedCallback (snd (ConnectToMuse flt name s)) =
            g_museListChangedCallback s
        \<and> g_connectionStateChangedCallback (snd (ConnectToMuse flt name s)) =
            g_connectionStateChangedCallback s
        \<and> g_dataReceivedCallback (snd (ConnectToMuse flt name s)) = g_dataReceivedCallback s)"
proof (intro conjI impI)
  show "first_match s name = Some m \<longleftrightarrow>
      (\<exists>i < length (muses s). muses s ! i = m \<and> muse_name (muse_objects s m) = name
         \<and> (\<forall>j < i. muse_name (muse_objects s (muses s ! j)) \<noteq> name))"
    by (auto simp: first_match_def find_Some_iff)
next
  assume ok: "fst (ConnectToMuse flt name s)"
  from ConnectToMuse_True [OF ok] obtain b where
    fm: "first_match s name = Some b"
    and cm: "connect_matched flt b (s\<lparr>sdk_log := sdk_log s @ scan_calls s name\<rparr>) =
         (Inr True, snd (ConnectToMuse flt name s))"
    by blast
  show "first_match s name \<noteq> None"
    using fm by simp
  show "g_currentMuse (snd (ConnectToMuse flt name s)) = first_match s name"
    using fm connect_matched_Inr(2) [OF cm] by simp
next
  assume a: "g_manager s \<noteq> None \<and> first_match s name = Some m \<and> (\<forall>c. flt c = None)"
  let ?s1 = "s\<lparr>sdk_log := sdk_log s @ scan_calls s name\<rparr>"
  have eq: "ConnectToMuse flt name s =
     (case connect_matched flt m ?s1 of
        (Inl e, s2) \<Rightarrow> (False, s2)
      | (Inr r, s2) \<Rightarrow> (r, s2))"
    using a by (intro ConnectToMuse_found) simp_all
  have "fst (connect_matched flt m ?s1) = Inr True"
    using a by (intro connect_matched_returns) simp_all
  then obtain s' where cm: "connect_matched flt m ?s1 = (Inr True, s')"
    by (cases "connect_matched flt m ?s1") simp
  show "fst (ConnectToMuse flt name s)"
    using eq cm by simp
  have "\<exists>rest. sdk_log s' = sdk_log s @ scan_calls s name @ rest"
    using connect_matched_Inr(3) [OF cm] by auto
  then show "\<exists>rest. sdk_log (snd (ConnectToMuse flt name s)) =
                     sdk_log s @ scan_calls s name @ rest"
    using eq cm by simp
next
  assume "\<forall>d \<in> set (muses s). muse_name (muse_objects s d) \<noteq> name"
  then have nm: "first_match s name = None"
    by (simp add: first_match_def find_None_iff)
  from ConnectToMuse_no_match(2) [OF nm, of flt] obtain lg where
    st: "snd (ConnectToMuse flt name s) = s\<lparr>sdk_log := sdk_log s @ lg\<rparr>"
    by blast
  show "\<not> fst (ConnectToMuse flt name s)"
    using ConnectToMuse_no_match(1) [OF nm] .
  show "\<exists>lg. snd (ConnectToMuse flt name s) = s\<lparr>sdk_log := sdk_log s @ lg\<rparr>"
    using st by blast
  show "g_manager (snd (ConnectToMuse flt name s)) = g_manager s"
    using st by simp
  show "g_currentMuse (snd (ConnectToMuse flt name s)) = g_currentMuse s"
    using st by simp
  show "muse_objects (snd (ConnectToMuse flt name s)) = muse_objects s"
    using st by simp
  show "g_museListChangedCallback (snd (ConnectToMuse flt name s)) =
            g_museListChangedCallback s"
    using st by simp
  show "g_connectionStateChangedCallback (snd (ConnectToMuse flt name s)) =
            g_connectionStateChangedCallback s"
    using st by simp
  show "g_dataReceivedCallback (snd (ConnectToMuse flt name s)) = g_dataReceivedCallback s"
    using st by simp
qed

theorem connect_first_match_witness:
  "first_match sample_ready ''Muse-B'' = Some 1
   \<and> muses sample_ready = [0, 1, 2]
   \<and> muse_name (muse_objects sample_ready 2) = ''Muse-B''
   \<and> fst (ConnectToMuse no_faults ''Muse-B'' sample_ready)
   \<and> g_currentMuse (snd (ConnectToMuse no_faults ''Muse-B'' sample_ready)) = Some 1
   \<and> scan_calls sample_ready ''Muse-B'' = [Call_get_muses, Call_get_name 0, Call_get_name 1]
   \<and> muse_name (muse_objects sample_ready 0) \<noteq> ''Muse-C''
   \<and> muse_name (muse_objects sample_ready 1) \<noteq> ''Muse-C''
   \<and> muse_name (muse_objects sample_ready 2) \<noteq> ''Muse-C''
   \<and> \<not> fst (ConnectToMuse no_faults ''Muse-C'' sample_ready)
   \<and> g_manager (snd (ConnectToMuse no_faults ''Muse-C'' sample_ready)) = g_manager sample_ready
   \<and> g_currentMuse (snd (ConnectToMuse no_faults ''Muse-C'' sample_ready)) = None
   \<and> muse_objects (snd (ConnectToMuse no_faults ''Muse-C'' sample_ready)) =
        muse_objects sample_ready"
proof -
  have a: "first_match sample_ready ''Muse-B'' = Some 1"
      "muses sample_ready = [0, 1, 2]"
      "muse_name (muse_objects sample_ready 2) = ''Muse-B''"
      "g_manager sample_ready \<noteq> None"
      "g_currentMuse sample_ready = None"
      "scan_calls sample_ready ''Muse-B'' = [Call_get_muses, Call_get_name 0, Call_get_name 1]"
      "muse_name (muse_objects sample_ready 0) \<noteq> ''Muse-C''"
      "muse_name (muse_objects sample_ready 1) \<noteq> ''Muse-C''"
      "muse_name (muse_objects sample_ready 2) \<noteq> ''Muse-C''"
    by (simp_all add: eval_defs)
  have b: "\<forall>c. no_faults c = None"
    by (simp add: no_faults_def)
  have c: "\<forall>d \<in> set (muses sample_ready). muse_name (muse_objects sample_ready d) \<noteq> ''Muse-C''"
    using a by simp
  show ?thesis
    using a b c
      connect_first_match [where s = sample_ready and name = "''Muse-B''" and m = 1
        and flt = no_faults]
      connect_first_match [where s = sample_ready and name = "''Muse-C''" and m = 1
        and flt = no_faults]
    by simp
qed

text \<open>
  C3, as the code has it. When the name matches a device while another device is
  current and the lookups of the scan return, the disconnect of the old device is the
  next SDK call. If it returns, and registering and starting the new device return, the
  new device is registered, made current and started, and the result is true. If it
  throws, the exception ends the call: the result is false, nothing is registered on the
  new device, it is not started, and the old device is still the current one.
\<close>

theorem connect_replaces_connection:
  assumes "g_manager s \<noteq> None"
    and "g_currentMuse s = Some a"
    and "first_match s name = Some m"
    and "flt Call_get_muses = None"
    and "\<forall>d\<in>set (muses s). flt (Call_get_name d) = None"
  shows "(flt (Call_disconnect a) = None
           \<and> (\<forall>l. flt (Call_register_connection_listener m l) = None)
           \<and> flt (Call_run_asynchronously m) = None \<longrightarrow>
          fst (ConnectToMuse flt name s)
          \<and> g_currentMuse (snd (ConnectToMuse flt name s)) = Some m
          \<and> (\<exists>l. sdk_log (snd (ConnectToMuse flt name s)) =
                    sdk_log s @ scan_calls s name @
                    [Call_disconnect a, Call_register_connection_listener m (Some l),
                     Call_run_asynchronously m]))
       \<and> (\<forall>e. flt (Call_disconnect a) = Some e \<longrightarrow>
            ConnectToMuse flt name s =
              (False, s\<lparr>sdk_log := sdk_log s @ scan_calls s name @ [Call_disconnect a]\<rparr>))"
proof -
  let ?s1 = "s\<lparr>sdk_log := sdk_log s @ scan_calls s name\<rparr>"
  have eq: "ConnectToMuse flt name s =
     (case connect_matched flt m ?s1 of
        (Inl e, s2) \<Rightarrow> (False, s2)
      | (Inr r, s2) \<Rightarrow> (r, s2))"
    using assms by (intro ConnectToMuse_found) simp_all
  have cur: "g_currentMuse ?s1 = Some a"
    using assms(2) by simp
  show ?thesis
  proof (intro conjI impI allI)
    assume ret: "flt (Call_disconnect a) = None
           \<and> (\<forall>l. flt (Call_register_connection_listener m l) = None)
           \<and> flt (Call_run_asynchronously m) = None"
    have "fst (connect_matched flt m ?s1) = Inr True"
      using ret cur by (intro connect_matched_returns) simp_all
    then obtain s' where cm: "connect_matched flt m ?s1 = (Inr True, s')"
      by (cases "connect_matched flt m ?s1") simp
    show "fst (ConnectToMuse flt name s)"
      using eq cm by simp
    show "g_currentMuse (snd (ConnectToMuse flt name s)) = Some m"
      using eq cm connect_matched_Inr(2) [OF cm] by simp
    have "\<exists>l. sdk_log s' = sdk_log s @ scan_calls s name @
                    [Call_disconnect a, Call_register_connection_listener m (Some l),
                     Call_run_asynchronously m]"
      using connect_matched_Inr(3) [OF cm] cur by auto
    then show "\<exists>l. sdk_log (snd (ConnectToMuse flt name s)) =
                    sdk_log s @ scan_calls s name @
                    [Call_disconnect a, Call_register_connection_listener m (Some l),
                     Call_run_asynchronously m]"
      using eq cm by simp
  next
    fix e assume thr: "flt (Call_disconnect a) = Some e"
    show "ConnectToMuse flt name s =
              (False, s\<lparr>sdk_log := sdk_log s @ scan_calls s name @ [Call_disconnect a]\<rparr>)"
      using eq connect_matched_disconnect_throws [where s = ?s1 and a = a and flt = flt and e = e and m = m] cur thr
      by simp
  qed
qed

theorem connect_replaces_connection_witness:
  "g_manager sample_connected \<noteq> None
   \<and> g_currentMuse sample_connected = Some 0
   \<and> first_match sample_connected ''Muse-B'' = Some 1
   \<and> fst (ConnectToMuse no_faults ''Muse-B'' sample_connected)
   \<and> g_currentMuse (snd (ConnectToMuse no_faults ''Muse-B'' sample_connected)) = Some 1
   \<and> disconnect_0_throws (Call_disconnect 0) = Some StdException
   \<and> ConnectToMuse disconnect_0_throws ''Muse-B'' sample_connected =
       (False, sample_connected\<lparr>sdk_log := sdk_log sample_connected @
          [Call_get_muses, Call_get_name 0, Call_get_name 1, Call_disconnect 0]\<rparr>)"
proof -
  have a: "g_manager sample_connected \<noteq> None"
      "g_currentMuse sample_connected = Some 0"
      "first_match sample_connected ''Muse-B'' = Some 1"
      "scan_calls sample_connected ''Muse-B'' = [Call_get_muses, Call_get_name 0, Call_get_name 1]"
    by (simp_all add: eval_defs)
  have n: "no_faults Call_get_muses = None"
      "\<forall>d\<in>set (muses sample_connected). no_faults (Call_get_name d) = None"
      "no_faults (Call_disconnect 0) = None
           \<and> (\<forall>l. no_faults (Call_register_connection_listener 1 l) = None)
           \<and> no_faults (Call_run_asynchronously 1) = None"
    by (simp_all add: no_faults_def)
  have t: "disconnect_0_throws Call_get_muses = None"
      "\<forall>d\<in>set (muses sample_connected). disconnect_0_throws (Call_get_name d) = None"
      "disconnect_0_throws (Call_disconnect 0) = Some StdException"
    by (simp_all add: disconnect_0_throws_def)
  show ?thesis
    using a n(3) t(3)
      connect_replaces_connection [OF a(1) a(2) a(3) n(1) n(2)]
      connect_replaces_connection [OF a(1) a(2) a(3) t(1) t(2)]
    by simp
qed

theorem connect_disconnect_failure_counterexample:
  "g_manager sample_connected = Some 1
   \<and> g_currentMuse sample_connected = Some 0
   \<and> muse_name (muse_objects sample_connected 1) = ''Muse-B''
   \<and> disconnect_0_throws (Call_disconnect 0) = Some StdException
   \<and> disconnect_0_throws (Call_register_connection_listener 1 (Some 1)) = None
   \<and> disconnect_0_throws (Call_run_asynchronously 1) = None
   \<and> fst (ConnectToMuse disconnect_0_throws ''Muse-B'' sample_connected) = False
   \<and> g_currentMuse (snd (ConnectToMuse disconnect_0_throws ''Muse-B'' sample_connected)) = Some 0
   \<and> connection_listeners
        (muse_objects (snd (ConnectToMuse disconnect_0_throws ''Muse-B'' sample_connected)) 1) = []
   \<and> \<not> running
        (muse_objects (snd (ConnectToMuse disconnect_0_throws ''Muse-B'' sample_connected)) 1)"
  by (simp add: eval_defs)




section \<open>Disconnecting\<close>

text \<open>
  C8, as the code has it. With no current device \<open>DisconnectMuse\<close> changes nothing, and
  calling it again changes nothing either. With a current device whose SDK disconnect
  returns, the device is disconnected and the current-device pointer cleared; whether the
  manager is listening, its device list and the manager handle are left as they were. The
  listeners are not detached: every device keeps the connection listeners and data
  listeners registered on it, and the two listener objects stay in place.
\<close>

theorem DisconnectMuse_effect:
  "(g_currentMuse s = None \<longrightarrow> DisconnectMuse flt s = s)
   \<and> (g_currentMuse s = Some m \<and> flt (Call_disconnect m) = None \<longrightarrow>
        g_currentMuse (DisconnectMuse flt s) = None
        \<and> sdk_log (DisconnectMuse flt s) = sdk_log s @ [Call_disconnect m]
        \<and> \<not> running (muse_objects (DisconnectMuse flt s) m)
        \<and> listening (DisconnectMuse flt s) = listening s
        \<and> muses (DisconnectMuse flt s) = muses s
        \<and> g_manager (DisconnectMuse flt s) = g_manager s
        \<and> g_connectionListener (DisconnectMuse flt s) = g_connectionListener s
        \<and> g_dataListener (DisconnectMuse flt s) = g_dataListener s
        \<and> (\<forall>d. connection_listeners (muse_objects (DisconnectMuse flt s) d) =
                  connection_listeners (muse_objects s d)
               \<and> data_listeners (muse_objects (DisconnectMuse flt s) d) =
                  data_listeners (muse_objects s d))
        \<and> DisconnectMuse flt' (DisconnectMuse flt s) = DisconnectMuse flt s)"
  by (simp add: DisconnectMuse_def disconnect_def invoke_eq update_muse_def)

theorem DisconnectMuse_effect_witness:
  "g_currentMuse sample_ready = None
   \<and> DisconnectMuse no_faults sample_ready = sample_ready
   \<and> g_currentMuse sample_subscribed = Some 0
   \<and> no_faults (Call_disconnect 0) = None
   \<and> g_currentMuse (DisconnectMuse no_faults sample_subscribed) = None
   \<and> sdk_log (DisconnectMuse no_faults sample_subscribed) =
        sdk_log sample_subscribed @ [Call_disconnect 0]
   \<and> data_listeners (muse_objects (DisconnectMuse no_faults sample_subscribed) 0) =
        data_listeners (muse_objects sample_subscribed 0)
   \<and> DisconnectMuse no_faults (DisconnectMuse no_faults sample_subscribed) =
        DisconnectMuse no_faults sample_subscribed"
proof -
  have a: "g_currentMuse sample_ready = None"
    by (simp add: eval_defs)
  have b: "g_currentMuse sample_subscribed = Some 0"
    by (simp add: eval_defs)
  have c: "no_faults (Call_disconnect 0) = None"
    by (simp add: no_faults_def)
  show ?thesis
    using a b c
      DisconnectMuse_effect
        [where s = sample_ready and m = 0 and flt = no_faults and flt' = no_faults]
      DisconnectMuse_effect
        [where s = sample_subscribed and m = 0 and flt = no_faults and flt' = no_faults]
    by simp
qed

theorem DisconnectMuse_keeps_listeners_counterexample:
  "g_currentMuse sample_subscribed = Some 0
   \<and> connection_listeners (muse_objects sample_subscribed 0) = [1]
   \<and> data_listeners (muse_objects sample_subscribed 0) = [(2, 2)]
   \<and> g_currentMuse (DisconnectMuse no_faults sample_subscribed) = None
   \<and> connection_listeners (muse_objects (DisconnectMuse no_faults sample_subscribed) 0) = [1]
   \<and> data_listeners (muse_objects (DisconnectMuse no_faults sample_subscribed) 0) = [(2, 2)]"
  by (simp add: eval_defs)

section \<open>Shutting down\<close>

text \<open>
  C7, as the code has it. From any state, if the SDK's disconnect and stop-listening
  calls return, \<open>StopMuseManager\<close> disconnects the current device if there is one, stops
  listening if the manager handle is held, and clears the current device, the three
  callback slots, the three listener objects and the manager handle: every global is
  \<open>nullptr\<close> again, as at process start. A second call changes nothing. Afterwards
  \<open>GetMuseCount\<close> returns 0, \<open>GetMuseName\<close> returns the empty string, \<open>ConnectToMuse\<close>,
  \<open>StartListening\<close>, \<open>RegisterDataListener\<close> and \<open>UnregisterDataListener\<close> return
  false, and a data event is neither marshaled nor passed to a callback. The listeners
  already registered with the SDK are not unregistered.
\<close>

theorem shutdown_effect:
  assumes "\<forall>m. g_currentMuse s = Some m \<longrightarrow> flt (Call_disconnect m) = None"
    and "g_manager s \<noteq> None \<longrightarrow> flt Call_stop_listening = None"
  shows "g_currentMuse (StopMuseManager flt s) = None
     \<and> g_manager (StopMuseManager flt s) = None
     \<and> g_museListChangedCallback (StopMuseManager flt s) = None
     \<and> g_connectionStateChangedCallback (StopMuseManager flt s) = None
     \<and> g_dataReceivedCallback (StopMuseManager flt s) = None
     \<and> g_listener (StopMuseManager flt s) = None
     \<and> g_connectionListener (StopMuseManager flt s) = None
     \<and> g_dataListener (StopMuseManager flt s) = None
     \<and> (\<forall>m. g_currentMuse s = Some m \<longrightarrow>
           Call_disconnect m \<in> set (sdk_log (StopMuseManager flt s))
           \<and> \<not> running (muse_objects (StopMuseManager flt s) m))
     \<and> (g_manager s \<noteq> None \<longrightarrow>
           Call_stop_listening \<in> set (sdk_log (StopMuseManager flt s))
           \<and> \<not> listening (StopMuseManager flt s))
     \<and> StopMuseManager flt' (StopMuseManager flt s) = StopMuseManager flt s
     \<and> fst (GetMuseCount flt' (StopMuseManager flt s)) = 0
     \<and> fst (GetMuseName flt' index (StopMuseManager flt s)) = ''''
     \<and> \<not> fst (ConnectToMuse flt' name (StopMuseManager flt s))
     \<and> \<not> fst (StartListening flt' (StopMuseManager flt s))
     \<and> \<not> fst (RegisterDataListener flt' t (StopMuseManager flt s))
     \<and> \<not> fst (UnregisterDataListener flt' t (StopMuseManager flt s))
     \<and> receive_muse_data_packet (StopMuseManager flt s) p =
         \<lparr>packet_accesses = [], host_calls = []\<rparr>
     \<and> receive_muse_artifact_packet (StopMuseManager flt s) q =
         \<lparr>packet_accesses = [], host_calls = []\<rparr>
     \<and> muse_listener (StopMuseManager flt s) = muse_listener s
     \<and> (\<forall>d. connection_listeners (muse_objects (StopMuseManager flt s) d) =
               connection_listeners (muse_objects s d)
            \<and> data_listeners (muse_objects (StopMuseManager flt s) d) =
               data_listeners (muse_objects s d))"
proof -
  have kept: "muse_listener (StopMuseManager flt s) = muse_listener s
     \<and> (\<forall>d. connection_listeners (muse_objects (StopMuseManager flt s) d) =
               connection_listeners (muse_objects s d)
            \<and> data_listeners (muse_objects (StopMuseManager flt s) d) =
               data_listeners (muse_objects s d))"
    using assms
    by (cases "g_currentMuse s"; cases "g_manager s")
       (simp_all add: StopMuseManager_def disconnect_def stop_listening_def invoke_eq
          update_muse_def)
  have globals: "g_currentMuse (StopMuseManager flt s) = None
     \<and> g_manager (StopMuseManager flt s) = None
     \<and> g_museListChangedCallback (StopMuseManager flt s) = None
     \<and> g_connectionStateChangedCallback (StopMuseManager flt s) = None
     \<and> g_dataReceivedCallback (StopMuseManager flt s) = None
     \<and> g_listener (StopMuseManager flt s) = None
     \<and> g_connectionListener (StopMuseManager flt s) = None
     \<and> g_dataListener (StopMuseManager flt s) = None"
    using assms
    by (cases "g_currentMuse s"; cases "g_manager s")
       (simp_all add: StopMuseManager_def disconnect_def stop_listening_def invoke_eq
          update_muse_def)
  have sdk: "(\<forall>m. g_currentMuse s = Some m \<longrightarrow>
           Call_disconnect m \<in> set (sdk_log (StopMuseManager flt s))
           \<and> \<not> running (muse_objects (StopMuseManager flt s) m))
     \<and> (g_manager s \<noteq> None \<longrightarrow>
           Call_stop_listening \<in> set (sdk_log (StopMuseManager flt s))
           \<and> \<not> listening (StopMuseManager flt s))"
    using assms
    by (cases "g_currentMuse s"; cases "g_manager s")
       (simp_all add: StopMuseManager_def disconnect_def stop_listening_def invoke_eq
          update_muse_def)
  have again: "StopMuseManager flt' (StopMuseManager flt s) = StopMuseManager flt s"
    using globals by (simp add: StopMuseManager_def)
  have inert: "fst (GetMuseCount flt' (StopMuseManager flt s)) = 0
     \<and> fst (GetMuseName flt' index (StopMuseManager flt s)) = ''''
     \<and> \<not> fst (ConnectToMuse flt' name (StopMuseManager flt s))
     \<and> \<not> fst (StartListening flt' (StopMuseManager flt s))
     \<and> \<not> fst (RegisterDataListener flt' t (StopMuseManager flt s))
     \<and> \<not> fst (UnregisterDataListener flt' t (StopMuseManager flt s))
     \<and> receive_muse_data_packet (StopMuseManager flt s) p =
         \<lparr>packet_accesses = [], host_calls = []\<rparr>
     \<and> receive_muse_artifact_packet (StopMuseManager flt s) q =
         \<lparr>packet_accesses = [], host_calls = []\<rparr>"
    using globals
    by (simp add: GetMuseCount_def GetMuseName_def ConnectToMuse_def StartListening_def
          RegisterDataListener_def UnregisterDataListener_def receive_muse_data_packet_def
          receive_muse_artifact_packet_def)
  show ?thesis
    using globals sdk again inert kept by blast
qed

theorem shutdown_effect_witness:
  "g_currentMuse sample_subscribed = Some 0
   \<and> g_manager sample_subscribed = Some 1
   \<and> listening (snd (StartListening no_faults sample_subscribed))
   \<and> g_dataReceivedCallback (SetDataReceivedCallback (Some 5) sample_subscribed) = Some 5
   \<and> g_currentMuse (StopMuseManager no_faults
        (SetDataReceivedCallback (Some 5) (snd (StartListening no_faults sample_subscribed)))) = None
   \<and> g_manager (StopMuseManager no_faults
        (SetDataReceivedCallback (Some 5) (snd (StartListening no_faults sample_subscribed)))) = None
   \<and> g_dataReceivedCallback (StopMuseManager no_faults
        (SetDataReceivedCallback (Some 5) (snd (StartListening no_faults sample_subscribed)))) = None
   \<and> \<not> listening (StopMuseManager no_faults
        (SetDataReceivedCallback (Some 5) (snd (StartListening no_faults sample_subscribed))))
   \<and> \<not> running (muse_objects (StopMuseManager no_faults
        (SetDataReceivedCallback (Some 5) (snd (StartListening no_faults sample_subscribed)))) 0)
   \<and> fst (GetMuseCount no_faults (StopMuseManager no_faults
        (SetDataReceivedCallback (Some 5) (snd (StartListening no_faults sample_subscribed))))) = 0
   \<and> \<not> fst (ConnectToMuse no_faults ''Muse-A'' (StopMuseManager no_faults
        (SetDataReceivedCallback (Some 5) (snd (StartListening no_faults sample_subscribed)))))
   \<and> fst (GetMuseCount no_faults sample_subscribed) = 3
   \<and> StopMuseManager no_faults (startup (Some 1) [0] sample_objects) =
        startup (Some 1) [0] sample_objects"
proof -
  let ?s = "SetDataReceivedCallback (Some 5) (snd (StartListening no_faults sample_subscribed))"
  have a: "g_currentMuse sample_subscribed = Some 0"
      "g_manager sample_subscribed = Some 1"
      "listening (snd (StartListening no_faults sample_subscribed))"
      "g_dataReceivedCallback (SetDataReceivedCallback (Some 5) sample_subscribed) = Some 5"
      "fst (GetMuseCount no_faults sample_subscribed) = 3"
      "g_currentMuse ?s = Some 0"
      "g_manager ?s = Some 1"
    by (simp_all add: eval_defs SetDataReceivedCallback_def)
  have h1: "\<forall>m. g_currentMuse ?s = Some m \<longrightarrow> no_faults (Call_disconnect m) = None"
    by (simp add: no_faults_def)
  have h2: "g_manager ?s \<noteq> None \<longrightarrow> no_faults Call_stop_listening = None"
    by (simp add: no_faults_def)
  have i: "StopMuseManager no_faults (startup (Some 1) [0] sample_objects) =
        startup (Some 1) [0] sample_objects"
    by (simp add: StopMuseManager_def startup_def)
  show ?thesis
    using a i
      shutdown_effect [OF h1 h2, where flt' = no_faults and name = "''Muse-A''"]
    by simp
qed

theorem shutdown_disconnect_throws_counterexample:
  "g_manager (SetDataReceivedCallback (Some 5) sample_subscribed) = Some 1
   \<and> g_currentMuse (SetDataReceivedCallback (Some 5) sample_subscribed) = Some 0
   \<and> disconnect_0_throws (Call_disconnect 0) = Some StdException
   \<and> g_manager (StopMuseManager disconnect_0_throws
        (SetDataReceivedCallback (Some 5) sample_subscribed)) = Some 1
   \<and> g_currentMuse (StopMuseManager disconnect_0_throws
        (SetDataReceivedCallback (Some 5) sample_subscribed)) = Some 0
   \<and> g_dataReceivedCallback (StopMuseManager disconnect_0_throws
        (SetDataReceivedCallback (Some 5) sample_subscribed)) = Some 5
   \<and> g_dataListener (StopMuseManager disconnect_0_throws
        (SetDataReceivedCallback (Some 5) sample_subscribed)) = Some 2
   \<and> sdk_log (StopMuseManager disconnect_0_throws
        (SetDataReceivedCallback (Some 5) sample_subscribed)) =
       sdk_log sample_subscribed @ [Call_disconnect 0]
   \<and> fst (GetMuseCount no_faults (StopMuseManager disconnect_0_throws
        (SetDataReceivedCallback (Some 5) sample_subscribed))) = 3
   \<and> fst (ConnectToMuse no_faults ''Muse-B'' (StopMuseManager disconnect_0_throws
        (SetDataReceivedCallback (Some 5) sample_subscribed))) = True"
  by (simp add: eval_defs SetDataReceivedCallback_def)

section \<open>Listener objects and the current device\<close>

text \<open>
  C10. At process start no device is current; every exported function, whatever the SDK
  calls it makes do, keeps the property that with a current device both the connection
  listener and the data listener exist. Hence with a current device
  \<open>RegisterDataListener\<close> and \<open>UnregisterDataListener\<close> reach the SDK and fail only if
  the SDK call throws; they can miss the data listener only when no device is current.
\<close>

theorem listeners_present_invariant:
  "listeners_present (startup inst ms objs)
   \<and> (listeners_present s \<longrightarrow> listeners_present (run_op flt op s))
   \<and> (listeners_present s \<and> g_currentMuse s = Some m \<longrightarrow>
        (\<exists>l. g_dataListener s = Some l
           \<and> fst (RegisterDataListener flt t s) =
               (flt (Call_register_data_listener m (Some l) t) = None)
           \<and> fst (UnregisterDataListener flt t s) =
               (flt (Call_unregister_data_listener m (Some l) t) = None)))
   \<and> (listeners_present s \<and> g_dataListener s = None \<longrightarrow>
        g_currentMuse s = None
        \<and> \<not> fst (RegisterDataListener flt t s) \<and> \<not> fst (UnregisterDataListener flt t s))"
proof (intro conjI impI)
  show "listeners_present (startup inst ms objs)"
    by (simp add: listeners_present_def startup_def)
next
  assume "listeners_present s"
  then show "listeners_present (run_op flt op s)"
    by (rule run_op_listeners_present)
next
  assume a: "listeners_present s \<and> g_currentMuse s = Some m"
  then obtain l where l: "g_dataListener s = Some l"
    by (auto simp: listeners_present_def)
  have "fst (RegisterDataListener flt t s) =
               (flt (Call_register_data_listener m (Some l) t) = None)"
    using a l by (simp add: RegisterDataListener_def register_data_listener_def invoke_eq
        split: option.splits)
  moreover have "fst (UnregisterDataListener flt t s) =
               (flt (Call_unregister_data_listener m (Some l) t) = None)"
    using a l by (simp add: UnregisterDataListener_def unregister_data_listener_def invoke_eq
        split: option.splits)
  ultimately show "\<exists>l. g_dataListener s = Some l
           \<and> fst (RegisterDataListener flt t s) =
               (flt (Call_register_data_listener m (Some l) t) = None)
           \<and> fst (UnregisterDataListener flt t s) =
               (flt (Call_unregister_data_listener m (Some l) t) = None)"
    using l by (intro exI [where x = l]) simp
next
  assume a: "listeners_present s \<and> g_dataListener s = None"
  then show "g_currentMuse s = None"
    by (auto simp: listeners_present_def)
next
  assume a: "listeners_present s \<and> g_dataListener s = None"
  then show "\<not> fst (RegisterDataListener flt t s)"
    by (simp add: RegisterDataListener_def split: option.splits)
next
  assume a: "listeners_present s \<and> g_dataListener s = None"
  then show "\<not> fst (UnregisterDataListener flt t s)"
    by (simp add: UnregisterDataListener_def split: option.splits)
qed

theorem listeners_present_invariant_witness:
  "g_currentMuse sample_ready = None
   \<and> g_dataListener sample_ready = None
   \<and> \<not> fst (RegisterDataListener no_faults 2 sample_ready)
   \<and> \<not> fst (UnregisterDataListener no_faults 2 sample_ready)
   \<and> g_currentMuse (run_op no_faults (Op_ConnectToMuse ''Muse-A'') sample_ready) = Some 0
   \<and> g_connectionListener (run_op no_faults (Op_ConnectToMuse ''Muse-A'') sample_ready) \<noteq> None
   \<and> g_dataListener (run_op no_faults (Op_ConnectToMuse ''Muse-A'') sample_ready) \<noteq> None
   \<and> g_currentMuse sample_connected = Some 0
   \<and> g_dataListener sample_connected = Some 2
   \<and> fst (RegisterDataListener no_faults 2 sample_connected)
   \<and> fst (UnregisterDataListener no_faults 2 sample_connected)"
proof -
  have a: "listeners_present sample_ready"
    by (simp add: listeners_present_def eval_defs)
  have b: "g_currentMuse sample_connected = Some 0"
    by (simp add: eval_defs)
  have c: "g_dataListener sample_ready = None" "g_currentMuse sample_ready = None"
    by (simp_all add: eval_defs)
  have e: "run_op no_faults (Op_ConnectToMuse ''Muse-A'') sample_ready = sample_connected"
    by (simp add: sample_connected_def)
  have f: "no_faults (Call_register_data_listener 0 (Some 2) 2) = None"
      "no_faults (Call_unregister_data_listener 0 (Some 2) 2) = None"
    by (simp_all add: no_faults_def)
  note at_ready = listeners_present_invariant
      [where s = sample_ready and flt = no_faults and op = "Op_ConnectToMuse ''Muse-A''"
         and t = 2 and m = 0]
  have g: "listeners_present sample_connected"
    using a e at_ready by simp
  have h: "g_connectionListener sample_connected \<noteq> None"
      "g_dataListener sample_connected \<noteq> None"
    using g b by (simp_all add: listeners_present_def)
  have d: "g_dataListener sample_connected = Some 2"
    by (simp add: eval_defs)
  note at_connected = listeners_present_invariant
      [where s = sample_connected and flt = no_faults and op = "Op_ConnectToMuse ''Muse-A''"
         and t = 2 and m = 0]
  show ?thesis
    using a b c d e f g h at_ready at_connected by simp
qed

end
